theory Spec2Isabelle
  imports Main
begin

section \<open>The Filecoin blockchain engine of ganache (blockchain.ts)\<close>

text \<open>
  A shallow embedding of the class \<open>Blockchain\<close> of
  \<open>src/chains/filecoin/filecoin/src/blockchain.ts\<close>. Every public operation is
  a function from the engine state to a result and the state it leaves behind; a
  \<open>throw\<close> is the result \<open>Inl e\<close> (or \<open>Some e\<close>), and the state returned with
  it is the state at the moment of the throw, since the class rolls nothing back.

  The engine runs on a single JavaScript thread. Each operation is modelled as one
  uninterrupted step taken in a ready engine (\<open>waitForReady\<close> has returned); the two
  semaphores only order such steps and carry no data, so they have no field in the
  state. JavaScript numbers that count (nonces, heights, methods) are naturals and
  \<open>bigint\<close> amounts are integers; the sum that gives a pushed message its nonce is
  the sum of doubles (\<open>jsAddOne\<close>).
\<close>

subsection \<open>Data\<close>

datatype AddressProtocol = SECP256K1 | Actor | BLS | ID | Unknown

datatype SigType = SigTypeSecp256k1 | SigTypeBLS

datatype AddressSide = FromAddress | ToAddress

text \<open>One constructor per \<open>throw\<close> site of the class, and \<open>External\<close> for an error
  raised inside a collaborator (signing, \<open>checkMessage\<close>, the object store, the file
  system).\<close>

datatype error =
    UnsupportedMethod nat
  | InvalidNonce nat
  | InvalidProtocol AddressSide
  | InsufficientFunds int int
  | MissingWallet
  | UnknownPrivateKey string
  | ObjectNotFound string
  | IPFSNotRunning
  | CouldNotCreateFile string
  | CouldNotSaveFile string
  | TypeError
  | External string

record Account =
  address :: string
  balance :: int
  nonce :: nat
  privateKey :: "string option"

record Message =
  msg_to :: string
  msg_from :: string
  msg_nonce :: nat
  msg_value :: int
  msg_method :: nat
  gasLimit :: int
  gasFeeCap :: int
  gasPremium :: int

record MessageSendSpec =
  maxFee :: int

record Signature =
  sig_type :: SigType
  sig_data :: string

record SignedMessage =
  message :: Message
  signature :: Signature

record BlockHeader =
  miner :: string
  parents :: "string list"
  bh_height :: nat
  parentWeight :: int
  winCount :: nat

record Tipset =
  blocks :: "BlockHeader list"
  height :: nat

text \<open>\<open>StorageDealStatus\<close> is a TypeScript numeric enum; its members are numbers.\<close>

type_synonym StorageDealStatus = nat

record DealInfo =
  proposalCid :: string
  state :: StorageDealStatus
  deal_message :: string
  provider :: string
  pieceCid :: string
  deal_size :: nat
  pricePerEpoch :: int
  duration :: int
  dealId :: nat

record StartDealParams =
  wallet :: "string option"
  sdp_miner :: string
  data_root :: string
  data_pieceCid :: string
  data_pieceSize :: nat
  epochPrice :: int
  minBlocksDuration :: int

record RetrievalOrder =
  ro_root :: string
  ro_client :: string
  ro_miner :: string
  ro_total :: int

record FileRef =
  ref_path :: string

datatype Warning =
    CouldNotBurnBaseFee int string int
  | CouldNotTransferMiningFees int string int
  | CouldNotTransferValue int string string int

subsection \<open>Collaborators\<close>

text \<open>
  The modules that \<open>blockchain.ts\<close> imports (\<open>gas.ts\<close>, \<open>message.ts\<close>,
  \<open>things/address.ts\<close>, \<open>things/deal-info.ts\<close>, the IPFS node, \<open>fs\<close>, the options)
  are parameters of the model: every theorem holds for each value of \<open>Env\<close>.

  \<^item> \<open>parseProtocol\<close>, \<open>signMessage\<close>, \<open>signProposal\<close>: \<open>Address\<close>;
  \<^item> \<open>fillGasInformation\<close>, \<open>getBaseFee\<close>, \<open>getMinerFee\<close>: \<open>gas.ts\<close>;
  \<^item> \<open>checkMessage\<close>: \<open>message.ts\<close> (\<open>None\<close> is "no error");
  \<^item> \<open>messageCid\<close>, \<open>blockCid\<close>, \<open>dagCborCid\<close>: the content identifiers;
  \<^item> \<open>advanceState\<close> is the effect of \<open>DealInfo.advanceState\<close> on the deal's state,
    \<open>Validating\<close> and \<open>Active\<close> are the two enum members the class names;
  \<^item> \<open>blockTime\<close> is \<open>options.miner.blockTime\<close>;
  \<^item> \<open>ipfsNode\<close> says whether \<open>ipfsServer.node\<close> is set, \<open>objectStat\<close> is
    \<open>node.object.stat\<close> (\<open>None\<close> when it throws or times out), \<open>filesRead\<close> is
    \<open>node.files.read\<close>: the chunks it yields and whether the stream then throws;
  \<^item> \<open>createFails\<close> (making the directory and opening the stream), \<open>writeFails\<close>
    (writing one chunk) and \<open>renameFails\<close> say where the file system refuses.
\<close>

record Env =
  parseProtocol :: "string \<Rightarrow> AddressProtocol"
  signMessage :: "Account \<Rightarrow> Message \<Rightarrow> error + string"
  signProposal :: "Account \<Rightarrow> StartDealParams \<Rightarrow> error + string"
  fillGasInformation :: "Message \<Rightarrow> MessageSendSpec \<Rightarrow> Message"
  getBaseFee :: int
  getMinerFee :: "Message \<Rightarrow> int"
  checkMessage :: "SignedMessage \<Rightarrow> error option"
  messageCid :: "SignedMessage \<Rightarrow> string"
  blockCid :: "BlockHeader \<Rightarrow> string"
  dagCborCid :: "string \<Rightarrow> string"
  advanceState :: "StorageDealStatus \<Rightarrow> StorageDealStatus"
  Validating :: StorageDealStatus
  Active :: StorageDealStatus
  blockTime :: nat
  ipfsNode :: bool
  objectStat :: "string \<Rightarrow> nat option"
  filesRead :: "string \<Rightarrow> string list \<times> bool"
  createFails :: "string \<Rightarrow> bool"
  writeFails :: "string \<Rightarrow> string \<Rightarrow> bool"
  renameFails :: "string \<Rightarrow> bool"

subsection \<open>The engine state\<close>

text \<open>
  \<open>deals\<close> is the array of deal objects; \<open>inProcessDeals\<close> and \<open>dealsByCid\<close> hold
  references to the same objects, modelled as positions in \<open>deals\<close> (the array only
  grows, at its end). \<open>warnings\<close> collects \<open>console.warn\<close>, \<open>infoLog\<close> the lines of
  \<open>logLatestTipset\<close>, \<open>tipsetEvents\<close> the emitted \<open>tipset\<close> events, \<open>files\<close> the
  contents of the file system, and \<open>scheduledMines\<close> counts the calls of
  \<open>mineTipset\<close> that \<open>pushSigned\<close> starts without awaiting them.
\<close>

record State =
  messagePool :: "SignedMessage list"
  accounts :: "string \<Rightarrow> Account"
  latest :: Tipset
  tipsets :: "nat \<Rightarrow> Tipset option"
  latestTipsetKey :: nat
  blockMessages :: "string \<Rightarrow> SignedMessage list option"
  deals :: "DealInfo list"
  dealsByCid :: "string \<Rightarrow> nat option"
  inProcessDeals :: "nat list"
  warnings :: "Warning list"
  infoLog :: "(string \<times> nat) list"
  tipsetEvents :: "Tipset list"
  scheduledMines :: nat
  files :: "string \<Rightarrow> string option"

definition miner_address :: string where
  "miner_address = ''t01000''"

definition BurntFundsAddress :: string where
  "BurntFundsAddress = ''t099''"

subsection \<open>The account ledger\<close>

text \<open>
  Modelled from the spec: \<open>data-managers/account-manager.ts\<close> is not among the
  sources. The spec (4.5) gives \<open>getAccount\<close> as the current snapshot, with a
  zero-balance record made lazily for an unknown address; \<open>transferFunds\<close> as an
  atomic debit-then-credit that returns \<open>false\<close> iff \<open>from.balance < amount\<close> and then
  changes nothing; \<open>incrementNonce\<close> as \<open>nonce += 1\<close>. The ledger is a total function
  from addresses to records: the record read at an address never written is the
  lazily made one.
\<close>

definition getAccount :: "(string \<Rightarrow> Account) \<Rightarrow> string \<Rightarrow> Account" where
  "getAccount am a = am a"

definition transferFunds ::
  "(string \<Rightarrow> Account) \<Rightarrow> string \<Rightarrow> string \<Rightarrow> int \<Rightarrow> bool \<times> (string \<Rightarrow> Account)" where
  "transferFunds am src dst amount =
     (if balance (am src) < amount then (False, am)
      else
        let am1 = am(src := (am src)\<lparr>balance := balance (am src) - amount\<rparr>);
            am2 = am1(dst := (am1 dst)\<lparr>balance := balance (am1 dst) + amount\<rparr>)
        in (True, am2))"

definition incrementNonce :: "(string \<Rightarrow> Account) \<Rightarrow> string \<Rightarrow> (string \<Rightarrow> Account)" where
  "incrementNonce am a = am(a := (am a)\<lparr>nonce := nonce (am a) + 1\<rparr>)"

subsection \<open>Submission: pushSigned and push\<close>

text \<open>
  \<open>pushSigned\<close>: \<open>checkMessage\<close> may refuse; otherwise the message is appended to the
  pool and, when \<open>blockTime\<close> is 0, \<open>mineTipset()\<close> is started and not awaited: it
  suspends at its first \<open>await\<close>, so its effect is a later step of its own.
\<close>

definition pushSigned ::
  "Env \<Rightarrow> SignedMessage \<Rightarrow> bool \<Rightarrow> State \<Rightarrow> (error + string) \<times> State" where
  "pushSigned env signedMessage acquireLock s =
     (case checkMessage env signedMessage of
        Some e \<Rightarrow> (Inl e, s)
      | None \<Rightarrow>
          (Inr (messageCid env signedMessage),
           s\<lparr>messagePool := messagePool s @ [signedMessage],
             scheduledMines :=
               (if blockTime env = 0 then Suc (scheduledMines s) else scheduledMines s)\<rparr>))"

definition pendingMessagesForAccount :: "SignedMessage list \<Rightarrow> string \<Rightarrow> SignedMessage list" where
  "pendingMessagesForAccount pool sender =
     filter (\<lambda>queuedMessage. msg_from (message queuedMessage) = sender) pool"

definition nonceFromPendingMessages :: "nat \<Rightarrow> SignedMessage list \<Rightarrow> nat" where
  "nonceFromPendingMessages accountNonce pending =
     foldl (\<lambda>n m. max n (msg_nonce (message m))) accountNonce pending"

text \<open>
  \<open>nonceFromPendingMessages + 1\<close> is a sum of JavaScript numbers, that is of IEEE 754
  doubles, and the nonces are non-negative integers among them. Below \<open>2^53\<close> the sum
  is exact. From \<open>2^53\<close> to \<open>2^54\<close> the doubles are 2 apart: \<open>x + 1\<close> lies halfway
  between \<open>x\<close> and \<open>x + 2\<close> and rounds to the one whose significand is even, which is
  the multiple of 4. From \<open>2^54\<close> on the doubles are at least 4 apart and the sum rounds
  back to \<open>x\<close>.
\<close>

definition jsAddOne :: "nat \<Rightarrow> nat" where
  "jsAddOne x =
     (if x < 2 ^ 53 then x + 1
      else if x < 2 ^ 54 then (if x mod 4 = 0 then x else x + 2)
      else x)"

definition assignedNonce :: "nat \<Rightarrow> SignedMessage list \<Rightarrow> nat" where
  "assignedNonce accountNonce pending =
     (if length pending = 0 then accountNonce
      else jsAddOne (nonceFromPendingMessages accountNonce pending))"

definition messageBalanceRequired :: "Message \<Rightarrow> int" where
  "messageBalanceRequired m = gasFeeCap m * gasLimit m + msg_value m"

definition pendingBalanceRequired :: "SignedMessage list \<Rightarrow> int" where
  "pendingBalanceRequired pending =
     foldl (\<lambda>balanceSpent m.
              balanceSpent + gasFeeCap (message m) * gasLimit (message m) + msg_value (message m))
           0 pending"

definition invalidProtocol :: "Env \<Rightarrow> string \<Rightarrow> bool" where
  "invalidProtocol env a = (parseProtocol env a = ID \<or> parseProtocol env a = Unknown)"

definition push ::
  "Env \<Rightarrow> Message \<Rightarrow> MessageSendSpec \<Rightarrow> State \<Rightarrow> (error + SignedMessage) \<times> State" where
  "push env message0 spec s =
     (if msg_method message0 \<noteq> 0 then (Inl (UnsupportedMethod (msg_method message0)), s)
      else if msg_nonce message0 \<noteq> 0 then (Inl (InvalidNonce (msg_nonce message0)), s)
      else if invalidProtocol env (msg_from message0) then (Inl (InvalidProtocol FromAddress), s)
      else if invalidProtocol env (msg_to message0) then (Inl (InvalidProtocol ToAddress), s)
      else
        let message1 = fillGasInformation env message0 spec;
            account = getAccount (accounts s) (msg_from message1);
            pending = pendingMessagesForAccount (messagePool s) (msg_from message1);
            message2 = message1\<lparr>msg_nonce := assignedNonce (nonce account) pending\<rparr>;
            totalRequired = messageBalanceRequired message2 + pendingBalanceRequired pending
        in
          if balance account < totalRequired
          then (Inl (InsufficientFunds (balance account - pendingBalanceRequired pending)
                       (messageBalanceRequired message2)), s)
          else
            (case signMessage env account message2 of
               Inl e \<Rightarrow> (Inl e, s)
             | Inr sigdata \<Rightarrow>
                 let signedMessage =
                       \<lparr>message = message2,
                        signature = \<lparr>sig_type = SigTypeBLS, sig_data = sigdata\<rparr>\<rparr>
                 in (case pushSigned env signedMessage False s of
                       (Inl e, s') \<Rightarrow> (Inl e, s')
                     | (Inr c, s') \<Rightarrow> (Inr signedMessage, s'))))"

text \<open>
  The caller's \<open>message\<close> object once \<open>push\<close> has run its lines 294 to 320:
  \<open>fillGasInformation\<close> has filled it and \<open>message.nonce\<close> has been assigned. The object
  is in this state whatever the funds check, the signing and \<open>pushSigned\<close> do next.
\<close>

definition messageAfterAssignment :: "Env \<Rightarrow> Message \<Rightarrow> MessageSendSpec \<Rightarrow> State \<Rightarrow> Message" where
  "messageAfterAssignment env message0 spec s =
     (let message1 = fillGasInformation env message0 spec;
          account = getAccount (accounts s) (msg_from message1);
          pending = pendingMessagesForAccount (messagePool s) (msg_from message1)
      in message1\<lparr>msg_nonce := assignedNonce (nonce account) pending\<rparr>)"

text \<open>
  What a call of \<open>push\<close> does to the pool lock and under it, in program order. A call
  that fails one of the four checks throws before the lock is touched. Every other call
  runs \<open>messagePoolLock.acquire()\<close> (line 297), assigns the nonce (lines 304 to 320),
  appends to the pool in \<open>pushSigned\<close>, called with \<open>acquireLock = false\<close> (line 380),
  when it gets that far, and runs \<open>messagePoolLock.release()\<close> (line 357, or line 361
  in the \<open>catch\<close>).
\<close>

datatype PoolLockEvent =
    Acquire
  | AssignNonce Message
  | PoolPush SignedMessage
  | Release

definition pushPoolLock ::
  "Env \<Rightarrow> Message \<Rightarrow> MessageSendSpec \<Rightarrow> State \<Rightarrow> PoolLockEvent list" where
  "pushPoolLock env message0 spec s =
     (if msg_method message0 \<noteq> 0 \<or> msg_nonce message0 \<noteq> 0 \<or>
         invalidProtocol env (msg_from message0) \<or> invalidProtocol env (msg_to message0)
      then []
      else
        [Acquire, AssignNonce (messageAfterAssignment env message0 spec s)] @
        (case fst (push env message0 spec s) of
           Inl e \<Rightarrow> []
         | Inr signedMessage \<Rightarrow> [PoolPush signedMessage]) @
        [Release])"

subsection \<open>Mining: mineTipset\<close>

text \<open>
  Modelled from the spec: \<open>things/tipset.ts\<close> and \<open>things/block-header.ts\<close> are not
  among the sources. The spec (3) gives a tipset's \<open>cids\<close> as derived from its blocks
  and a header's \<open>electionProof.winCount\<close> as 1 unless set.
\<close>

definition cids :: "Env \<Rightarrow> Tipset \<Rightarrow> string list" where
  "cids env t = map (blockCid env) (blocks t)"

definition defaultWinCount :: nat where
  "defaultWinCount = 1"

text \<open>
  The loop that builds the headers. With no header to build nothing of the previous
  tipset is read; otherwise \<open>previousTipset.blocks[0].electionProof\<close> is a
  \<open>TypeError\<close> when the previous tipset has no block.
\<close>

definition newBlockHeaders :: "Env \<Rightarrow> nat \<Rightarrow> Tipset \<Rightarrow> error + BlockHeader list" where
  "newBlockHeaders env numNewBlocks previousTipset =
     (if numNewBlocks = 0 then Inr []
      else
        (case blocks previousTipset of
           [] \<Rightarrow> Inl TypeError
         | b0 # bs \<Rightarrow>
             Inr (replicate numNewBlocks
                    \<lparr>miner = miner_address,
                     parents = [blockCid env b0],
                     bh_height = height previousTipset + 1,
                     parentWeight = int (winCount b0) + parentWeight b0,
                     winCount = defaultWinCount\<rparr>)))"

text \<open>
  The body of the loop over the drained pool, for one message: the ledger, the
  warnings printed so far and \<open>successfulMessages\<close> go in and come out. Each
  \<open>continue\<close> is a return of the triple as it stands.
\<close>

definition applyMessage ::
  "Env \<Rightarrow> SignedMessage \<Rightarrow> (string \<Rightarrow> Account) \<times> Warning list \<times> SignedMessage list
     \<Rightarrow> (string \<Rightarrow> Account) \<times> Warning list \<times> SignedMessage list" where
  "applyMessage env signedMessage st =
     (case st of (am, ws, successfulMessages) \<Rightarrow>
       let src = msg_from (message signedMessage);
           dst = msg_to (message signedMessage);
           val = msg_value (message signedMessage);
           baseFee = getBaseFee env;
           (burnt, am0) =
             (if baseFee \<noteq> 0
              then transferFunds am src BurntFundsAddress (getMinerFee env (message signedMessage))
              else (True, am))
       in
         if \<not> burnt
         then (am0, ws @ [CouldNotBurnBaseFee baseFee src (balance (getAccount am0 src))],
               successfulMessages)
         else
           let (paid, am1) =
                 transferFunds am0 src miner_address (getMinerFee env (message signedMessage))
           in
             if \<not> paid
             then (am1,
                   ws @ [CouldNotTransferMiningFees (getMinerFee env (message signedMessage)) src
                           (balance (getAccount am1 src))],
                   successfulMessages)
             else
               let (sent, am2) = transferFunds am1 src dst val
               in
                 if \<not> sent
                 then (am2,
                       ws @ [CouldNotTransferValue val src dst (balance (getAccount am2 src))],
                       successfulMessages)
                 else (incrementNonce am2 src, ws, successfulMessages @ [signedMessage]))"

fun applyMessages ::
  "Env \<Rightarrow> SignedMessage list \<Rightarrow> (string \<Rightarrow> Account) \<times> Warning list \<times> SignedMessage list
     \<Rightarrow> (string \<Rightarrow> Account) \<times> Warning list \<times> SignedMessage list" where
  "applyMessages env [] st = st"
| "applyMessages env (signedMessage # rest) st =
     applyMessages env rest (applyMessage env signedMessage st)"

text \<open>
  The loop over \<open>inProcessDeals\<close>. A \<open>for ... of\<close> over an array reads position
  \<open>i\<close> of the array as it is at that moment and moves on to \<open>i + 1\<close>;
  \<open>splice(indexOf(deal), 1)\<close> removes the first occurrence of the deal's reference
  from the same array.
\<close>

function advanceDeals ::
  "Env \<Rightarrow> nat \<Rightarrow> DealInfo list \<times> nat list \<Rightarrow> DealInfo list \<times> nat list" where
  "advanceDeals env i (ds, inProcess) =
     (if i < length inProcess
      then
        let deal = inProcess ! i;
            ds' = ds[deal := (ds ! deal)\<lparr>state := advanceState env (state (ds ! deal))\<rparr>]
        in
          if state (ds' ! deal) = Active env
          then advanceDeals env (Suc i) (ds', remove1 deal inProcess)
          else advanceDeals env (Suc i) (ds', inProcess)
      else (ds, inProcess))"
  by pat_completeness auto
termination
  by (relation "measure (\<lambda>(env, i, ds, inProcess). length inProcess - i)")
     (auto simp: length_remove1)

definition mineTipset :: "Env \<Rightarrow> nat \<Rightarrow> State \<Rightarrow> error option \<times> State" where
  "mineTipset env numNewBlocks s =
     (let nextMessagePool = messagePool s;
          s1 = s\<lparr>messagePool := []\<rparr>;
          previousTipset = latest s1;
          newTipsetHeight = height previousTipset + 1
      in
        case newBlockHeaders env numNewBlocks previousTipset of
          Inl e \<Rightarrow> (Some e, s1)
        | Inr newBlocks \<Rightarrow>
            (case
               (if length nextMessagePool > 0
                then
                  (case applyMessages env nextMessagePool (accounts s1, warnings s1, []) of
                     (am, ws, successfulMessages) \<Rightarrow>
                       (case newBlocks of
                          [] \<Rightarrow> Inl (TypeError, s1\<lparr>accounts := am, warnings := ws\<rparr>)
                        | b # bs \<Rightarrow>
                            Inr (s1\<lparr>accounts := am, warnings := ws,
                                    blockMessages :=
                                      (blockMessages s1)(blockCid env b \<mapsto> successfulMessages)\<rparr>)))
                else Inr s1)
             of
               Inl (e, s2) \<Rightarrow> (Some e, s2)
             | Inr s2 \<Rightarrow>
                 let newTipset = \<lparr>blocks = newBlocks, height = newTipsetHeight\<rparr>;
                     s3 = s2\<lparr>latest := newTipset,
                             tipsets := (tipsets s2)(newTipsetHeight \<mapsto> newTipset),
                             latestTipsetKey := newTipsetHeight\<rparr>;
                     (ds, inProcess) = advanceDeals env 0 (deals s3, inProcessDeals s3);
                     s4 = s3\<lparr>deals := ds, inProcessDeals := inProcess\<rparr>
                 in
                   (case cids env (latest s4) of
                      [] \<Rightarrow> (Some TypeError, s4)
                    | c # cs \<Rightarrow>
                        (None,
                         s4\<lparr>infoLog := infoLog s4 @ [(c, height (latest s4))],
                            tipsetEvents := tipsetEvents s4 @ [newTipset]\<rparr>))))"

subsection \<open>The object store and the file system\<close>

definition hasLocal :: "Env \<Rightarrow> string \<Rightarrow> bool" where
  "hasLocal env cid =
     (if \<not> ipfsNode env then False
      else (case objectStat env cid of None \<Rightarrow> False | Some sz \<Rightarrow> True))"

definition getIPFSObjectSize :: "Env \<Rightarrow> string \<Rightarrow> error + nat" where
  "getIPFSObjectSize env cid =
     (if \<not> ipfsNode env then Inr 0
      else (case objectStat env cid of None \<Rightarrow> Inl (ObjectNotFound cid) | Some sz \<Rightarrow> Inr sz))"

text \<open>The \<open>for await\<close> loop of \<open>downloadFile\<close>: each chunk is appended to the open
  file, and a write that fails ends the download.\<close>

fun writeChunks ::
  "Env \<Rightarrow> string \<Rightarrow> string \<Rightarrow> string list \<Rightarrow> (string \<Rightarrow> string option)
     \<Rightarrow> error option \<times> (string \<Rightarrow> string option)" where
  "writeChunks env refPath partialPath [] fs = (None, fs)"
| "writeChunks env refPath partialPath (chunk # rest) fs =
     (if writeFails env partialPath chunk then (Some (CouldNotSaveFile refPath), fs)
      else writeChunks env refPath partialPath rest
             (fs(partialPath \<mapsto> (case fs partialPath of None \<Rightarrow> chunk | Some old \<Rightarrow> old @ chunk))))"

definition downloadFile ::
  "Env \<Rightarrow> string \<Rightarrow> FileRef \<Rightarrow> (string \<Rightarrow> string option)
     \<Rightarrow> error option \<times> (string \<Rightarrow> string option)" where
  "downloadFile env cid ref fs =
     (if \<not> ipfsNode env then (Some IPFSNotRunning, fs)
      else if createFails env (ref_path ref) then (Some (CouldNotCreateFile (ref_path ref)), fs)
      else
        let partialPath = ref_path ref @ ''.partial'';
            fs1 = fs(partialPath \<mapsto> [])
        in
          (case filesRead env cid of
             (chunks, readThrows) \<Rightarrow>
               (case writeChunks env (ref_path ref) partialPath chunks fs1 of
                  (Some e, fs2) \<Rightarrow> (Some e, fs2)
                | (None, fs2) \<Rightarrow>
                    if readThrows then (Some (ObjectNotFound cid), fs2)
                    else if renameFails env (ref_path ref) then (Some (External ''rename''), fs2)
                    else (None, (fs2(ref_path ref := fs2 partialPath))(partialPath := None)))))"

subsection \<open>Deals: startDeal and retrieve\<close>

text \<open>\<open>!account.address.privateKey\<close> is true for a missing key and for the empty
  string.\<close>

definition hasPrivateKey :: "Account \<Rightarrow> bool" where
  "hasPrivateKey account = (case privateKey account of None \<Rightarrow> False | Some k \<Rightarrow> k \<noteq> [])"

text \<open>The loop \<open>while (deal.state !== Active) await this.mineTipset()\<close> of
  \<open>startDeal\<close>. It need not end: \<open>None\<close> is the call that never returns.\<close>

partial_function (option) mineUntilActive ::
  "Env \<Rightarrow> nat \<Rightarrow> State \<Rightarrow> (error option \<times> State) option" where
  "mineUntilActive env deal s =
     (if state (deals s ! deal) \<noteq> Active env
      then
        (case mineTipset env 1 s of
           (Some e, s') \<Rightarrow> Some (Some e, s')
         | (None, s') \<Rightarrow> mineUntilActive env deal s')
      else Some (None, s))"

declare mineUntilActive.simps [code]

text \<open>
  \<open>dagCborCid\<close> stands for \<open>dagCBOR.util.cid\<close> of the signature's hex string.
  \<open>newDeal\<close> is the \<open>new DealInfo({...})\<close> of \<open>startDeal\<close> and \<open>registerDeal\<close> its
  three lines that enter the deal in \<open>dealsByCid\<close>, \<open>deals\<close> and \<open>inProcessDeals\<close>;
  the reference of the new deal is its position \<open>length (deals s)\<close>.
\<close>

definition newDeal :: "Env \<Rightarrow> StartDealParams \<Rightarrow> string \<Rightarrow> nat \<Rightarrow> State \<Rightarrow> DealInfo" where
  "newDeal env proposal proposalCid0 sz s =
     \<lparr>proposalCid = proposalCid0,
      state = Validating env,
      deal_message = [],
      provider = miner_address,
      pieceCid = data_pieceCid proposal,
      deal_size = sz,
      pricePerEpoch = epochPrice proposal,
      duration = minBlocksDuration proposal,
      dealId = length (deals s) + 1\<rparr>"

definition registerDeal :: "DealInfo \<Rightarrow> State \<Rightarrow> State" where
  "registerDeal deal s =
     s\<lparr>dealsByCid := (dealsByCid s)(proposalCid deal \<mapsto> length (deals s)),
       deals := deals s @ [deal],
       inProcessDeals := inProcessDeals s @ [length (deals s)]\<rparr>"

definition startDeal ::
  "Env \<Rightarrow> StartDealParams \<Rightarrow> State \<Rightarrow> ((error + string) \<times> State) option" where
  "startDeal env proposal s =
     (case wallet proposal of
        None \<Rightarrow> Some (Inl MissingWallet, s)
      | Some w \<Rightarrow>
          (case getIPFSObjectSize env (data_root proposal) of
             Inl e \<Rightarrow> Some (Inl e, s)
           | Inr size0 \<Rightarrow>
               let account = getAccount (accounts s) w in
               if \<not> hasPrivateKey account then Some (Inl (UnknownPrivateKey w), s)
               else
                 (case signProposal env account proposal of
                    Inl e \<Rightarrow> Some (Inl e, s)
                  | Inr sigdata \<Rightarrow>
                      (case (if data_pieceSize proposal \<noteq> 0 then Inr (data_pieceSize proposal)
                             else getIPFSObjectSize env (data_root proposal)) of
                         Inl e \<Rightarrow> Some (Inl e, s)
                       | Inr sz \<Rightarrow>
                           let dealRef = length (deals s);
                               s1 = registerDeal (newDeal env proposal (dagCborCid env sigdata) sz s) s
                           in
                             (case (if blockTime env = 0 then mineUntilActive env dealRef s1
                                    else Some (None, s1)) of
                                None \<Rightarrow> None
                              | Some (Some e, s2) \<Rightarrow> Some (Inl e, s2)
                              | Some (None, s2) \<Rightarrow>
                                  let totalPrice =
                                        pricePerEpoch (deals s2 ! dealRef) * duration (deals s2 ! dealRef)
                                  in Some (Inr (proposalCid (deals s2 ! dealRef)),
                                           s2\<lparr>accounts :=
                                                snd (transferFunds (accounts s2) w
                                                       (sdp_miner proposal) totalPrice)\<rparr>))))))"

definition retrieve ::
  "Env \<Rightarrow> RetrievalOrder \<Rightarrow> FileRef \<Rightarrow> State \<Rightarrow> error option \<times> State" where
  "retrieve env retrievalOrder ref s =
     (let local = hasLocal env (ro_root retrievalOrder);
          account = getAccount (accounts s) (ro_client retrievalOrder)
      in
        if \<not> hasPrivateKey account then (Some (UnknownPrivateKey (ro_client retrievalOrder)), s)
        else if \<not> local then (Some (ObjectNotFound (ro_root retrievalOrder)), s)
        else
          (case downloadFile env (ro_root retrievalOrder) ref (files s) of
             (Some e, fs) \<Rightarrow> (Some e, s\<lparr>files := fs\<rparr>)
           | (None, fs) \<Rightarrow>
               (None,
                s\<lparr>files := fs,
                  accounts :=
                    snd (transferFunds (accounts s) (ro_client retrievalOrder)
                           (ro_miner retrievalOrder) (ro_total retrievalOrder))\<rparr>)))"

subsection \<open>Example collaborators and states\<close>

text \<open>Concrete values at which the theorems below are instantiated. The protocol of
  an address is read off its second character, as Filecoin writes addresses.\<close>

definition exampleParseProtocol :: "string \<Rightarrow> AddressProtocol" where
  "exampleParseProtocol a =
     (case a of
        c0 # c1 # rest \<Rightarrow>
          (if c1 = CHR ''0'' then ID
           else if c1 = CHR ''1'' then SECP256K1
           else if c1 = CHR ''2'' then Actor
           else if c1 = CHR ''3'' then BLS
           else Unknown)
      | _ \<Rightarrow> Unknown)"

definition exampleEnv :: Env where
  "exampleEnv =
     \<lparr>parseProtocol = exampleParseProtocol,
      signMessage = (\<lambda>account m. if hasPrivateKey account then Inr ''signed'' else Inl (External ''no key'')),
      signProposal = (\<lambda>account p. if hasPrivateKey account then Inr ''signed-proposal'' else Inl (External ''no key'')),
      fillGasInformation = (\<lambda>m spec. m),
      getBaseFee = 0,
      getMinerFee = (\<lambda>m. gasFeeCap m * gasLimit m),
      checkMessage = (\<lambda>sm. None),
      messageCid = (\<lambda>sm. ''message-'' @ sig_data (signature sm)),
      blockCid = (\<lambda>b. ''block-'' @ replicate (bh_height b) (CHR ''i'')),
      dagCborCid = (\<lambda>sigdata. ''deal-'' @ sigdata),
      advanceState = Suc,
      Validating = 0,
      Active = 2,
      blockTime = 1,
      ipfsNode = True,
      objectStat = (\<lambda>cid. if cid = ''object'' then Some 4 else None),
      filesRead = (\<lambda>cid. ([''ab'', ''cd''], False)),
      createFails = (\<lambda>p. False),
      writeFails = (\<lambda>p chunk. False),
      renameFails = (\<lambda>p. False)\<rparr>"

definition instamineEnv :: Env where
  "instamineEnv = exampleEnv\<lparr>blockTime := 0\<rparr>"

definition burningEnv :: Env where
  "burningEnv = exampleEnv\<lparr>getBaseFee := 1\<rparr>"

definition genesisBlock :: BlockHeader where
  "genesisBlock =
     \<lparr>miner = miner_address,
      parents = [''bafyreiaqpwbbyjo4a42saasj36kkrpv4tsherf2e7bvezkert2a7dhonoi''],
      bh_height = 0, parentWeight = 0, winCount = 1\<rparr>"

definition genesisTipset :: Tipset where
  "genesisTipset = \<lparr>blocks = [genesisBlock], height = 0\<rparr>"

definition exampleAccounts :: "string \<Rightarrow> Account" where
  "exampleAccounts a =
     (if a = ''t3alice'' then \<lparr>address = a, balance = 100, nonce = 0, privateKey = Some ''ka''\<rparr>
      else if a = ''t1bob'' then \<lparr>address = a, balance = 7, nonce = 5, privateKey = Some ''kb''\<rparr>
      else \<lparr>address = a, balance = 0, nonce = 0, privateKey = None\<rparr>)"

definition exampleState :: State where
  "exampleState =
     \<lparr>messagePool = [], accounts = exampleAccounts, latest = genesisTipset,
      tipsets = [0 \<mapsto> genesisTipset], latestTipsetKey = 0, blockMessages = Map.empty,
      deals = [], dealsByCid = Map.empty, inProcessDeals = [], warnings = [], infoLog = [],
      tipsetEvents = [], scheduledMines = 0, files = Map.empty\<rparr>"

definition transferMessage :: "string \<Rightarrow> string \<Rightarrow> nat \<Rightarrow> int \<Rightarrow> Message" where
  "transferMessage src dst n v =
     \<lparr>msg_to = dst, msg_from = src, msg_nonce = n, msg_value = v, msg_method = 0,
      gasLimit = 1, gasFeeCap = 1, gasPremium = 0\<rparr>"

definition signedBy :: "Message \<Rightarrow> SignedMessage" where
  "signedBy m = \<lparr>message = m, signature = \<lparr>sig_type = SigTypeBLS, sig_data = ''signed''\<rparr>\<rparr>"

definition exampleSpec :: MessageSendSpec where
  "exampleSpec = \<lparr>maxFee = 0\<rparr>"

definition staleState :: State where
  "staleState =
     exampleState\<lparr>messagePool := [signedBy (transferMessage ''t1bob'' ''t3alice'' 2 1)]\<rparr>"

text \<open>A pool message whose nonce is \<open>2^53\<close>.\<close>

definition hugeState :: State where
  "hugeState =
     exampleState\<lparr>messagePool :=
       [signedBy (transferMessage ''t1bob'' ''t3alice'' 9007199254740992 1)]\<rparr>"

text \<open>The nonce as section 4.3, step 3 of the specification words it, to be compared
  with \<open>assignedNonce\<close>, which is the code's.\<close>

definition claimedNonce :: "nat \<Rightarrow> SignedMessage list \<Rightarrow> nat" where
  "claimedNonce accountNonce P =
     (if P = [] then accountNonce
      else Max (set (map (\<lambda>p. msg_nonce (message p)) P)) + 1)"

text \<open>Successive calls of \<open>mineTipset\<close>, one for each number of blocks in the list,
  each starting in the state the one before it left.\<close>

definition mineSuccessively :: "Env \<Rightarrow> nat list \<Rightarrow> State \<Rightarrow> State" where
  "mineSuccessively env ns s = foldl (\<lambda>st n. snd (mineTipset env n st)) s ns"

text \<open>The treatment of one message as section 4.4, step 4 of the specification words it:
  three transfers, none of them guarded, the first of \<open>burnAmount\<close>. It is compared with
  \<open>applyMessage\<close>, which is the code's.\<close>

definition claimedApplyMessage ::
  "Env \<Rightarrow> int \<Rightarrow> SignedMessage \<Rightarrow> (string \<Rightarrow> Account) \<times> Warning list \<times> SignedMessage list
     \<Rightarrow> (string \<Rightarrow> Account) \<times> Warning list \<times> SignedMessage list" where
  "claimedApplyMessage env burnAmount sm st =
     (case st of (am, ws, successfulMessages) \<Rightarrow>
        let src = msg_from (message sm);
            fee = getMinerFee env (message sm);
            burn = transferFunds am src BurntFundsAddress burnAmount;
            pay = transferFunds (snd burn) src miner_address fee;
            send = transferFunds (snd pay) src (msg_to (message sm)) (msg_value (message sm))
        in if \<not> fst burn
           then (snd burn,
                 ws @ [CouldNotBurnBaseFee (getBaseFee env) src (balance (snd burn src))],
                 successfulMessages)
           else if \<not> fst pay
           then (snd pay, ws @ [CouldNotTransferMiningFees fee src (balance (snd pay src))],
                 successfulMessages)
           else if \<not> fst send
           then (snd send,
                 ws @ [CouldNotTransferValue (msg_value (message sm)) src (msg_to (message sm))
                         (balance (snd send src))],
                 successfulMessages)
           else (incrementNonce (snd send) src, ws, successfulMessages @ [sm]))"

definition feeMessage :: "string \<Rightarrow> string \<Rightarrow> nat \<Rightarrow> int \<Rightarrow> int \<Rightarrow> Message" where
  "feeMessage src dst n v cap = (transferMessage src dst n v)\<lparr>gasFeeCap := cap\<rparr>"

text \<open>A pool of three messages; the second asks for more than its sender has.\<close>

definition batchState :: State where
  "batchState =
     exampleState\<lparr>messagePool :=
       [signedBy (transferMessage ''t3alice'' ''t1bob'' 0 10),
        signedBy (transferMessage ''t1bob'' ''t3alice'' 5 100),
        signedBy (transferMessage ''t3alice'' ''t1bob'' 1 1)]\<rparr>"

text \<open>Deals, proposals and retrieval orders of the examples.\<close>

definition exampleDeal :: "nat \<Rightarrow> StorageDealStatus \<Rightarrow> DealInfo" where
  "exampleDeal n st =
     \<lparr>proposalCid = ''deal-signed-proposal'', state = st, deal_message = [],
      provider = ''t01000'', pieceCid = ''piece'', deal_size = 4, pricePerEpoch = 2,
      duration = 3, dealId = n\<rparr>"

definition exampleProposal :: "string \<Rightarrow> int \<Rightarrow> StartDealParams" where
  "exampleProposal w price =
     \<lparr>wallet = Some w, sdp_miner = ''t01000'', data_root = ''object'',
      data_pieceCid = ''piece'', data_pieceSize = 0, epochPrice = price,
      minBlocksDuration = 3\<rparr>"

text \<open>Two deals in process: the first one step before \<open>Active\<close>, the second in
  \<open>Validating\<close>.\<close>

definition twoDealsState :: State where
  "twoDealsState =
     exampleState\<lparr>deals := [exampleDeal 1 1, exampleDeal 2 0], inProcessDeals := [0, 1]\<rparr>"

definition exampleOrder :: "string \<Rightarrow> RetrievalOrder" where
  "exampleOrder c = \<lparr>ro_root = ''object'', ro_client = c, ro_miner = ''t01000'', ro_total = 5\<rparr>"

text \<open>A deal with its state forgotten: all that \<open>advanceState\<close> leaves as it is.\<close>

definition eraseState :: "DealInfo \<Rightarrow> DealInfo" where
  "eraseState d = d\<lparr>state := 0\<rparr>"

text \<open>The state that a call of \<open>startDeal\<close> which returns leaves behind.\<close>

definition resultState :: "((error + string) \<times> State) option \<Rightarrow> State \<Rightarrow> State" where
  "resultState r s = (case r of None \<Rightarrow> s | Some (x, s') \<Rightarrow> s')"

text \<open>The state after \<open>startDeal\<close>, one mined tipset and a second \<open>startDeal\<close>, with no
  instamining.\<close>

definition firstDealState :: State where
  "firstDealState =
     snd (mineTipset exampleEnv 1
       (resultState (startDeal exampleEnv (exampleProposal ''t3alice'' 2) exampleState)
          exampleState))"

definition secondDealState :: State where
  "secondDealState =
     resultState (startDeal exampleEnv (exampleProposal ''t3alice'' 2) firstDealState)
       firstDealState"

text \<open>
  Lines 672 to 701 of \<open>startDeal\<close>, for a proposal whose signature is \<open>sigdata\<close> and
  whose object has size \<open>objectSize\<close>: the deal is made and registered and, when \<open>blockTime\<close>
  is 0, \<open>mineTipset\<close> is called until the deal is \<open>Active\<close>. \<open>None\<close> is the loop that
  never ends.
\<close>

definition registerAndMine ::
  "Env \<Rightarrow> StartDealParams \<Rightarrow> State \<Rightarrow> string \<Rightarrow> nat \<Rightarrow> (error option \<times> State) option" where
  "registerAndMine env proposal s sigdata objectSize =
     (let sz = (if data_pieceSize proposal \<noteq> 0 then data_pieceSize proposal else objectSize);
          s1 = registerDeal (newDeal env proposal (dagCborCid env sigdata) sz s) s
      in if blockTime env = 0 then mineUntilActive env (length (deals s)) s1
         else Some (None, s1))"

text \<open>The state in which instamining leaves a deal of price 15 for a wallet that
  holds 7.\<close>

definition poorMinedState :: State where
  "poorMinedState =
     (case registerAndMine instamineEnv (exampleProposal ''t1bob'' 5) exampleState
             ''signed-proposal'' 4 of
        None \<Rightarrow> exampleState
      | Some (r, st) \<Rightarrow> st)"

section \<open>Properties\<close>

lemmas example_defs =
  exampleEnv_def exampleParseProtocol_def exampleState_def exampleAccounts_def
  transferMessage_def signedBy_def exampleSpec_def genesisTipset_def genesisBlock_def

lemmas push_defs =
  push_def pushSigned_def Let_def invalidProtocol_def getAccount_def hasPrivateKey_def
  pendingMessagesForAccount_def assignedNonce_def jsAddOne_def nonceFromPendingMessages_def
  messageBalanceRequired_def pendingBalanceRequired_def

subsection \<open>Submission\<close>

lemma foldl_max_Max:
  "foldl (\<lambda>n m. max n (f m)) (a::nat) xs = Max (insert a (f ` set xs))"
proof (induction xs arbitrary: a)
  case Nil
  then show ?case by simp
next
  case (Cons x xs)
  have "Max (insert (max a (f x)) (f ` set xs)) = Max (insert a (insert (f x) (f ` set xs)))"
    by (cases "f ` set xs = {}") (simp_all add: max.assoc)
  with Cons show ?case by simp
qed

lemma nonceFromPendingMessages_Max:
  "pending \<noteq> [] \<Longrightarrow>
     nonceFromPendingMessages a pending =
       max a (Max (set (map (\<lambda>p. msg_nonce (message p)) pending)))"
  by (simp add: nonceFromPendingMessages_def foldl_max_Max)

lemma foldl_add_sum_list:
  "foldl (\<lambda>b m. b + g m) (a::int) xs = a + sum_list (map g xs)"
  by (induction xs arbitrary: a) (simp_all add: add.assoc)

lemma pendingBalanceRequired_sum_list:
  "pendingBalanceRequired pending =
     sum_list (map (\<lambda>p. gasFeeCap (message p) * gasLimit (message p) + msg_value (message p))
                 pending)"
proof -
  have "pendingBalanceRequired pending =
          foldl (\<lambda>b m. b + (gasFeeCap (message m) * gasLimit (message m) + msg_value (message m)))
            0 pending"
    by (simp add: pendingBalanceRequired_def add.assoc)
  then show ?thesis by (simp add: foldl_add_sum_list)
qed

text \<open>What a call of \<open>push\<close> that returns a signed message has gone through.\<close>

lemma push_Inr_cases:
  assumes "push env m spec s = (Inr sm, s')"
  shows "msg_method m = 0 \<and> msg_nonce m = 0 \<and> \<not> invalidProtocol env (msg_from m) \<and>
         \<not> invalidProtocol env (msg_to m) \<and>
         (\<exists>sigdata.
            sm = \<lparr>message = (fillGasInformation env m spec)
                      \<lparr>msg_nonce := assignedNonce
                          (nonce (getAccount (accounts s) (msg_from (fillGasInformation env m spec))))
                          (pendingMessagesForAccount (messagePool s)
                             (msg_from (fillGasInformation env m spec)))\<rparr>,
                  signature = \<lparr>sig_type = SigTypeBLS, sig_data = sigdata\<rparr>\<rparr>) \<and>
         messagePool s' = messagePool s @ [sm]"
  using assms
  by (auto simp: push_def Let_def pushSigned_def
           split: if_splits sum.splits option.splits prod.splits)

lemma jsAddOne_exact: "x < 2 ^ 53 \<Longrightarrow> jsAddOne x = x + 1"
  by (simp add: jsAddOne_def)

lemma messageAfterAssignment_sender:
  "msg_from (messageAfterAssignment env m spec s) = msg_from (fillGasInformation env m spec)"
  by (simp add: messageAfterAssignment_def Let_def)

lemma push_message:
  assumes "fst (push env m spec s) = Inr sm"
  shows "message sm = messageAfterAssignment env m spec s"
proof -
  obtain s' where "push env m spec s = (Inr sm, s')"
    using assms by (cases "push env m spec s") simp
  from push_Inr_cases [OF this] show ?thesis
    by (auto simp: messageAfterAssignment_def Let_def)
qed

text \<open>
  C1, as amended. For every call of \<open>push\<close> that passes the method, nonce and protocol
  checks: the pool lock is acquired, then the nonce is assigned, then the signed message
  carrying it is appended to the pool when the funds check, the signing and
  \<open>checkMessage\<close> let the call get that far, and then the lock is released. With \<open>P\<close>
  the pool messages of the same sender: if \<open>P\<close> is empty the nonce assigned is
  \<open>account.nonce\<close>; otherwise it is \<open>max(account.nonce, max(p.nonce for p in P)) + 1\<close>,
  the \<open>reduce\<close> over \<open>P\<close> starting from \<open>account.nonce\<close> and the sum being that of
  JavaScript numbers, which is the exact sum while the maximum is below \<open>2^53\<close>.
\<close>

theorem push_assigns_nonce:
  assumes "msg_method m = 0" and "msg_nonce m = 0"
    and "\<not> invalidProtocol env (msg_from m)" and "\<not> invalidProtocol env (msg_to m)"
    and "sender = msg_from (fillGasInformation env m spec)"
    and "P = pendingMessagesForAccount (messagePool s) sender"
    and "highest = max (nonce (getAccount (accounts s) sender))
                   (Max (set (map (\<lambda>p. msg_nonce (message p)) P)))"
    and "assigned = messageAfterAssignment env m spec s"
  shows "msg_from assigned = sender \<and>
         msg_nonce assigned =
           (if P = [] then nonce (getAccount (accounts s) sender) else jsAddOne highest) \<and>
         (P \<noteq> [] \<and> highest < 2 ^ 53 \<longrightarrow> msg_nonce assigned = highest + 1) \<and>
         (case fst (push env m spec s) of
            Inl e \<Rightarrow> pushPoolLock env m spec s = [Acquire, AssignNonce assigned, Release]
          | Inr sm \<Rightarrow>
              message sm = assigned \<and>
              pushPoolLock env m spec s = [Acquire, AssignNonce assigned, PoolPush sm, Release])"
proof -
  have c1: "msg_from assigned = sender"
    by (simp add: assms(5,8) messageAfterAssignment_sender)
  have c2: "msg_nonce assigned =
           (if P = [] then nonce (getAccount (accounts s) sender) else jsAddOne highest)"
    by (simp add: assms(5,6,7,8) messageAfterAssignment_def Let_def assignedNonce_def
          nonceFromPendingMessages_Max)
  have c3: "P \<noteq> [] \<and> highest < 2 ^ 53 \<longrightarrow> msg_nonce assigned = highest + 1"
    using c2 by (simp add: jsAddOne_exact)
  have c4: "case fst (push env m spec s) of
            Inl e \<Rightarrow> pushPoolLock env m spec s = [Acquire, AssignNonce assigned, Release]
          | Inr sm \<Rightarrow>
              message sm = assigned \<and>
              pushPoolLock env m spec s = [Acquire, AssignNonce assigned, PoolPush sm, Release]"
  proof (cases "fst (push env m spec s)")
    case (Inl e)
    then show ?thesis
      by (simp add: pushPoolLock_def assms(1,2,3,4,8))
  next
    case (Inr sm)
    with push_message [OF Inr] show ?thesis
      by (simp add: pushPoolLock_def assms(1,2,3,4,8))
  qed
  from c1 c2 c3 c4 show ?thesis by simp
qed

lemma example_passes_validation:
  "msg_method (transferMessage ''t1bob'' ''t3alice'' 0 v) = 0 \<and>
   msg_nonce (transferMessage ''t1bob'' ''t3alice'' 0 v) = 0 \<and>
   \<not> invalidProtocol exampleEnv (msg_from (transferMessage ''t1bob'' ''t3alice'' 0 v)) \<and>
   \<not> invalidProtocol exampleEnv (msg_to (transferMessage ''t1bob'' ''t3alice'' 0 v))"
  by (simp add: invalidProtocol_def example_defs)

lemma stale_assigned:
  "messageAfterAssignment exampleEnv (transferMessage ''t1bob'' ''t3alice'' 0 v) exampleSpec staleState
     = transferMessage ''t1bob'' ''t3alice'' 6 v"
  by (simp add: messageAfterAssignment_def push_defs example_defs staleState_def)

lemma huge_assigned:
  "messageAfterAssignment exampleEnv (transferMessage ''t1bob'' ''t3alice'' 0 1) exampleSpec hugeState
     = transferMessage ''t1bob'' ''t3alice'' 9007199254740992 1"
  by (simp add: messageAfterAssignment_def push_defs example_defs hugeState_def)

lemma stale_pushed:
  "fst (push exampleEnv (transferMessage ''t1bob'' ''t3alice'' 0 1) exampleSpec staleState)
     = Inr (signedBy (transferMessage ''t1bob'' ''t3alice'' 6 1))"
  by (simp add: push_defs example_defs staleState_def)

lemma stale_refused:
  "fst (push exampleEnv (transferMessage ''t1bob'' ''t3alice'' 0 10) exampleSpec staleState)
     = Inl (InsufficientFunds 5 11)"
  by (simp add: push_defs example_defs staleState_def)

text \<open>The account's nonce is 5 and the sender's one pool message has nonce 2: a call
  that goes through and a call refused for its funds both assign nonce 6 under the
  lock. With a pool message of nonce \<open>2^53\<close> the nonce assigned is \<open>2^53\<close>.\<close>

theorem push_assigns_nonce_witness:
  "pendingMessagesForAccount (messagePool staleState) ''t1bob''
     = [signedBy (transferMessage ''t1bob'' ''t3alice'' 2 1)] \<and>
   nonce (getAccount (accounts staleState) ''t1bob'') = 5 \<and>
   messageAfterAssignment exampleEnv (transferMessage ''t1bob'' ''t3alice'' 0 1) exampleSpec staleState
     = transferMessage ''t1bob'' ''t3alice'' 6 1 \<and>
   pushPoolLock exampleEnv (transferMessage ''t1bob'' ''t3alice'' 0 1) exampleSpec staleState
     = [Acquire, AssignNonce (transferMessage ''t1bob'' ''t3alice'' 6 1),
        PoolPush (signedBy (transferMessage ''t1bob'' ''t3alice'' 6 1)), Release] \<and>
   fst (push exampleEnv (transferMessage ''t1bob'' ''t3alice'' 0 10) exampleSpec staleState)
     = Inl (InsufficientFunds 5 11) \<and>
   pushPoolLock exampleEnv (transferMessage ''t1bob'' ''t3alice'' 0 10) exampleSpec staleState
     = [Acquire, AssignNonce (transferMessage ''t1bob'' ''t3alice'' 6 10), Release] \<and>
   msg_nonce (messageAfterAssignment exampleEnv (transferMessage ''t1bob'' ''t3alice'' 0 1)
                exampleSpec hugeState) = 9007199254740992"
proof -
  note v1 = example_passes_validation [of 1]
  note v10 = example_passes_validation [of 10]
  note pushed = push_assigns_nonce
    [where env = exampleEnv and m = "transferMessage ''t1bob'' ''t3alice'' 0 1"
       and spec = exampleSpec and s = staleState,
     OF v1 [THEN conjunct1] v1 [THEN conjunct2, THEN conjunct1]
        v1 [THEN conjunct2, THEN conjunct2, THEN conjunct1]
        v1 [THEN conjunct2, THEN conjunct2, THEN conjunct2] refl refl refl refl]
  note refused = push_assigns_nonce
    [where env = exampleEnv and m = "transferMessage ''t1bob'' ''t3alice'' 0 10"
       and spec = exampleSpec and s = staleState,
     OF v10 [THEN conjunct1] v10 [THEN conjunct2, THEN conjunct1]
        v10 [THEN conjunct2, THEN conjunct2, THEN conjunct1]
        v10 [THEN conjunct2, THEN conjunct2, THEN conjunct2] refl refl refl refl]
  have l1: "pushPoolLock exampleEnv (transferMessage ''t1bob'' ''t3alice'' 0 1) exampleSpec staleState
     = [Acquire, AssignNonce (transferMessage ''t1bob'' ''t3alice'' 6 1),
        PoolPush (signedBy (transferMessage ''t1bob'' ''t3alice'' 6 1)), Release]"
    using pushed [THEN conjunct2, THEN conjunct2, THEN conjunct2]
    by (simp add: stale_pushed stale_assigned)
  have l2: "pushPoolLock exampleEnv (transferMessage ''t1bob'' ''t3alice'' 0 10) exampleSpec staleState
     = [Acquire, AssignNonce (transferMessage ''t1bob'' ''t3alice'' 6 10), Release]"
    using refused [THEN conjunct2, THEN conjunct2, THEN conjunct2]
    by (simp add: stale_refused stale_assigned)
  have p: "pendingMessagesForAccount (messagePool staleState) ''t1bob''
     = [signedBy (transferMessage ''t1bob'' ''t3alice'' 2 1)] \<and>
     nonce (getAccount (accounts staleState) ''t1bob'') = 5"
    by (simp add: push_defs example_defs staleState_def)
  have h: "msg_nonce (messageAfterAssignment exampleEnv (transferMessage ''t1bob'' ''t3alice'' 0 1)
                exampleSpec hugeState) = 9007199254740992"
    unfolding huge_assigned by (simp add: transferMessage_def)
  from l1 l2 p h stale_assigned [of 1] stale_refused show ?thesis by simp
qed

lemma huge_pushed:
  "fst (push exampleEnv (transferMessage ''t1bob'' ''t3alice'' 0 1) exampleSpec hugeState)
     = Inr (signedBy (transferMessage ''t1bob'' ''t3alice'' 9007199254740992 1)) \<and>
   claimedNonce (nonce (getAccount (accounts hugeState) ''t1bob''))
     (pendingMessagesForAccount (messagePool hugeState) ''t1bob'') = 9007199254740993"
  by (simp add: push_defs example_defs hugeState_def claimedNonce_def)

text \<open>C1 as stated fails. The pool message of nonce 2 came in through \<open>pushSigned\<close>;
  the claim's \<open>max(p.nonce for p in P) + 1\<close> is 3, the nonce assigned is 6. And with a
  pool message of nonce \<open>2^53\<close> the claim's sum is \<open>2^53 + 1\<close>, the nonce assigned is
  \<open>2^53\<close>.\<close>

theorem push_nonce_claim_counterexample:
  "pushSigned exampleEnv (signedBy (transferMessage ''t1bob'' ''t3alice'' 2 1)) True exampleState
     = (Inr ''message-signed'', staleState) \<and>
   fst (push exampleEnv (transferMessage ''t1bob'' ''t3alice'' 0 1) exampleSpec staleState)
     = Inr (signedBy (transferMessage ''t1bob'' ''t3alice'' 6 1)) \<and>
   pendingMessagesForAccount (messagePool staleState) ''t1bob'' \<noteq> [] \<and>
   claimedNonce (nonce (getAccount (accounts staleState) ''t1bob''))
     (pendingMessagesForAccount (messagePool staleState) ''t1bob'') = 3 \<and>
   msg_nonce (message (signedBy (transferMessage ''t1bob'' ''t3alice'' 6 1))) \<noteq>
     claimedNonce (nonce (getAccount (accounts staleState) ''t1bob''))
       (pendingMessagesForAccount (messagePool staleState) ''t1bob'') \<and>
   fst (push exampleEnv (transferMessage ''t1bob'' ''t3alice'' 0 1) exampleSpec hugeState)
     = Inr (signedBy (transferMessage ''t1bob'' ''t3alice'' 9007199254740992 1)) \<and>
   claimedNonce (nonce (getAccount (accounts hugeState) ''t1bob''))
     (pendingMessagesForAccount (messagePool hugeState) ''t1bob'') = 9007199254740993"
proof -
  have stale:
    "pushSigned exampleEnv (signedBy (transferMessage ''t1bob'' ''t3alice'' 2 1)) True exampleState
       = (Inr ''message-signed'', staleState) \<and>
     fst (push exampleEnv (transferMessage ''t1bob'' ''t3alice'' 0 1) exampleSpec staleState)
       = Inr (signedBy (transferMessage ''t1bob'' ''t3alice'' 6 1)) \<and>
     pendingMessagesForAccount (messagePool staleState) ''t1bob'' \<noteq> [] \<and>
     claimedNonce (nonce (getAccount (accounts staleState) ''t1bob''))
       (pendingMessagesForAccount (messagePool staleState) ''t1bob'') = 3 \<and>
     msg_nonce (message (signedBy (transferMessage ''t1bob'' ''t3alice'' 6 1))) \<noteq>
       claimedNonce (nonce (getAccount (accounts staleState) ''t1bob''))
         (pendingMessagesForAccount (messagePool staleState) ''t1bob'')"
    by (simp add: push_defs example_defs staleState_def claimedNonce_def)
  from stale huge_pushed show ?thesis by blast
qed

text \<open>
  C3. With \<open>m1\<close> the message after \<open>fillGasInformation\<close> and \<open>P\<close> the sender's pool
  messages: when the sender's balance is less than
  \<open>gasFeeCap * gasLimit + value\<close> of \<open>m1\<close> plus the sum of the same quantity over \<open>P\<close>,
  \<open>push\<close> raises and leaves the whole state, so the pool, as it was; the error is
  \<open>InsufficientFunds\<close> whenever the call has passed the method, nonce and protocol checks
  that come first.
\<close>

theorem push_insufficient_funds:
  assumes "m1 = fillGasInformation env m spec"
    and "P = pendingMessagesForAccount (messagePool s) (msg_from m1)"
    and "pendingRequired =
           sum_list (map (\<lambda>p. gasFeeCap (message p) * gasLimit (message p) + msg_value (message p)) P)"
    and "balance (getAccount (accounts s) (msg_from m1)) <
           gasFeeCap m1 * gasLimit m1 + msg_value m1 + pendingRequired"
  shows "(\<exists>e. push env m spec s = (Inl e, s)) \<and>
         (msg_method m = 0 \<and> msg_nonce m = 0 \<and> \<not> invalidProtocol env (msg_from m) \<and>
          \<not> invalidProtocol env (msg_to m) \<longrightarrow>
            push env m spec s =
              (Inl (InsufficientFunds
                      (balance (getAccount (accounts s) (msg_from m1)) - pendingRequired)
                      (gasFeeCap m1 * gasLimit m1 + msg_value m1)), s))"
  using assms
  by (simp add: push_def Let_def messageBalanceRequired_def pendingBalanceRequired_sum_list)

text \<open>Balance 7, a transfer of 10 with fee cap 1 and gas limit 1, an empty pool.\<close>

theorem push_insufficient_funds_witness:
  "balance (getAccount (accounts exampleState) ''t1bob'') < 1 * 1 + 10 + 0 \<and>
   push exampleEnv (transferMessage ''t1bob'' ''t3alice'' 0 10) exampleSpec exampleState
     = (Inl (InsufficientFunds 7 11), exampleState)"
proof -
  let ?m = "transferMessage ''t1bob'' ''t3alice'' 0 10"
  have f: "?m = fillGasInformation exampleEnv ?m exampleSpec"
    by (simp add: example_defs)
  have b: "balance (getAccount (accounts exampleState) (msg_from ?m)) <
           gasFeeCap ?m * gasLimit ?m + msg_value ?m +
           sum_list (map (\<lambda>p. gasFeeCap (message p) * gasLimit (message p) + msg_value (message p))
              (pendingMessagesForAccount (messagePool exampleState) (msg_from ?m)))"
    by (simp add: push_defs example_defs)
  have v: "msg_method ?m = 0 \<and> msg_nonce ?m = 0 \<and> \<not> invalidProtocol exampleEnv (msg_from ?m) \<and>
          \<not> invalidProtocol exampleEnv (msg_to ?m)"
    by (simp add: push_defs example_defs)
  have e: "balance (getAccount (accounts exampleState) ''t1bob'') = 7 \<and>
           pendingMessagesForAccount (messagePool exampleState) ''t1bob'' = []"
    by (simp add: push_defs example_defs)
  from push_insufficient_funds [OF f refl refl b] v e show ?thesis
    by (simp add: transferMessage_def)
qed

text \<open>
  C6. The checks of \<open>push\<close> in their order: a method other than 0 raises
  \<open>UnsupportedMethod\<close>; then a nonce other than 0 raises \<open>InvalidNonce\<close>; then a sender,
  and then a receiver, of protocol ID or Unknown raises \<open>InvalidProtocol\<close>. Whenever one
  of the conditions holds the call raises one of these errors, and in each case the state
  is returned unchanged: nothing is added to the pool.
\<close>

theorem push_validation_errors:
  "(msg_method m \<noteq> 0 \<longrightarrow>
      push env m spec s = (Inl (UnsupportedMethod (msg_method m)), s)) \<and>
   (msg_method m = 0 \<and> msg_nonce m \<noteq> 0 \<longrightarrow>
      push env m spec s = (Inl (InvalidNonce (msg_nonce m)), s)) \<and>
   (msg_method m = 0 \<and> msg_nonce m = 0 \<and>
    parseProtocol env (msg_from m) \<in> {ID, Unknown} \<longrightarrow>
      push env m spec s = (Inl (InvalidProtocol FromAddress), s)) \<and>
   (msg_method m = 0 \<and> msg_nonce m = 0 \<and>
    parseProtocol env (msg_from m) \<notin> {ID, Unknown} \<and>
    parseProtocol env (msg_to m) \<in> {ID, Unknown} \<longrightarrow>
      push env m spec s = (Inl (InvalidProtocol ToAddress), s)) \<and>
   (msg_method m \<noteq> 0 \<or> msg_nonce m \<noteq> 0 \<or>
    parseProtocol env (msg_from m) \<in> {ID, Unknown} \<or>
    parseProtocol env (msg_to m) \<in> {ID, Unknown} \<longrightarrow>
      (\<exists>e. push env m spec s = (Inl e, s) \<and>
           (e = UnsupportedMethod (msg_method m) \<or> e = InvalidNonce (msg_nonce m) \<or>
            e = InvalidProtocol FromAddress \<or> e = InvalidProtocol ToAddress)) \<and>
      messagePool (snd (push env m spec s)) = messagePool s)"
  by (auto simp: push_def invalidProtocol_def)

text \<open>One call for each of the four checks.\<close>

theorem push_validation_errors_witness:
  "push exampleEnv ((transferMessage ''t3alice'' ''t1bob'' 0 1)\<lparr>msg_method := 2\<rparr>) exampleSpec exampleState
     = (Inl (UnsupportedMethod 2), exampleState) \<and>
   push exampleEnv (transferMessage ''t3alice'' ''t1bob'' 7 1) exampleSpec exampleState
     = (Inl (InvalidNonce 7), exampleState) \<and>
   push exampleEnv (transferMessage ''t01000'' ''t1bob'' 0 1) exampleSpec exampleState
     = (Inl (InvalidProtocol FromAddress), exampleState) \<and>
   push exampleEnv (transferMessage ''t3alice'' ''xyz'' 0 1) exampleSpec exampleState
     = (Inl (InvalidProtocol ToAddress), exampleState)"
  using
    push_validation_errors [of "(transferMessage ''t3alice'' ''t1bob'' 0 1)\<lparr>msg_method := 2\<rparr>"
      exampleEnv exampleSpec exampleState]
    push_validation_errors [of "transferMessage ''t3alice'' ''t1bob'' 7 1"
      exampleEnv exampleSpec exampleState]
    push_validation_errors [of "transferMessage ''t01000'' ''t1bob'' 0 1"
      exampleEnv exampleSpec exampleState]
    push_validation_errors [of "transferMessage ''t3alice'' ''xyz'' 0 1"
      exampleEnv exampleSpec exampleState]
  by (simp add: example_defs)

text \<open>
  C9. Every signed message that \<open>push\<close> returns has signature type \<open>SigTypeBLS\<close>,
  whatever the sender's address.
\<close>

theorem push_signature_type:
  assumes "fst (push env m spec s) = Inr sm"
  shows "sig_type (signature sm) = SigTypeBLS"
proof -
  obtain s' where "push env m spec s = (Inr sm, s')"
    using assms by (cases "push env m spec s") simp
  from push_Inr_cases [OF this] show ?thesis by auto
qed

text \<open>A sender whose address has protocol SECP256K1.\<close>

theorem push_signature_type_witness:
  "parseProtocol exampleEnv ''t1bob'' = SECP256K1 \<and>
   fst (push exampleEnv (transferMessage ''t1bob'' ''t3alice'' 0 1) exampleSpec exampleState)
     = Inr (signedBy (transferMessage ''t1bob'' ''t3alice'' 5 1)) \<and>
   sig_type (signature (signedBy (transferMessage ''t1bob'' ''t3alice'' 5 1))) = SigTypeBLS"
proof -
  have r: "fst (push exampleEnv (transferMessage ''t1bob'' ''t3alice'' 0 1) exampleSpec exampleState)
     = Inr (signedBy (transferMessage ''t1bob'' ''t3alice'' 5 1))"
    by (simp add: push_defs example_defs)
  have p: "parseProtocol exampleEnv ''t1bob'' = SECP256K1"
    by (simp add: example_defs)
  from push_signature_type [OF r] r p show ?thesis by simp
qed

subsection \<open>Mining\<close>

lemmas mine_defs =
  mineTipset_def newBlockHeaders_def applyMessage_def transferFunds_def incrementNonce_def
  getAccount_def cids_def defaultWinCount_def miner_address_def BurntFundsAddress_def Let_def

lemma transferFunds_ok_iff:
  "fst (transferFunds am src dst amount) \<longleftrightarrow> \<not> balance (am src) < amount"
  by (simp add: transferFunds_def Let_def)

lemma transferFunds_failed:
  "\<not> fst (transferFunds am src dst amount) \<Longrightarrow> snd (transferFunds am src dst amount) = am"
  by (simp add: transferFunds_def Let_def split: if_splits)

lemma transferFunds_nonce:
  "nonce (snd (transferFunds am src dst amount) a) = nonce (am a)"
  by (simp add: transferFunds_def Let_def)

lemma applyMessage_unfold:
  "applyMessage env sm (am, ws, succ) =
     (let src = msg_from (message sm);
          fee = getMinerFee env (message sm);
          burn = (if getBaseFee env \<noteq> 0 then transferFunds am src BurntFundsAddress fee
                  else (True, am));
          pay = transferFunds (snd burn) src miner_address fee;
          send = transferFunds (snd pay) src (msg_to (message sm)) (msg_value (message sm))
      in if \<not> fst burn
         then (snd burn,
               ws @ [CouldNotBurnBaseFee (getBaseFee env) src (balance (snd burn src))], succ)
         else if \<not> fst pay
         then (snd pay, ws @ [CouldNotTransferMiningFees fee src (balance (snd pay src))], succ)
         else if \<not> fst send
         then (snd send,
               ws @ [CouldNotTransferValue (msg_value (message sm)) src (msg_to (message sm))
                       (balance (snd send src))], succ)
         else (incrementNonce (snd send) src, ws, succ @ [sm]))"
  by (simp add: applyMessage_def Let_def getAccount_def split: prod.splits)

lemma applyMessages_append:
  "applyMessages env (xs @ ys) st = applyMessages env ys (applyMessages env xs st)"
  by (induction xs arbitrary: st) simp_all

lemma applyMessage_successful:
  "snd (snd (applyMessage env sm (am, ws, succ))) = succ \<or>
   snd (snd (applyMessage env sm (am, ws, succ))) = succ @ [sm]"
  by (simp add: applyMessage_unfold Let_def)

lemma applyMessages_successful_subset:
  "set (snd (snd (applyMessages env batch st))) \<subseteq> set (snd (snd st)) \<union> set batch"
proof (induction batch arbitrary: st)
  case Nil
  then show ?case by simp
next
  case (Cons sm batch)
  obtain am ws succ where st: "st = (am, ws, succ)" by (cases st) auto
  have "set (snd (snd (applyMessage env sm st))) \<subseteq> set (snd (snd st)) \<union> {sm}"
    using applyMessage_successful [of env sm am ws succ] st by auto
  with Cons.IH [of "applyMessage env sm st"] show ?case by auto
qed

lemma newBlockHeaders_Inr:
  assumes "0 < n" and "blocks t = b0 # bs"
  shows "newBlockHeaders env n t =
           Inr (replicate n
                  \<lparr>miner = miner_address, parents = [blockCid env b0],
                   bh_height = height t + 1,
                   parentWeight = int (winCount b0) + parentWeight b0,
                   winCount = defaultWinCount\<rparr>)"
  using assms by (simp add: newBlockHeaders_def)

lemma replicate_pos: "0 < n \<Longrightarrow> replicate n x = x # replicate (n - 1) x"
  by (cases n) simp_all

text \<open>mineTipset with at least one block on a tipset with at least one block.\<close>

lemma mineTipset_unfold:
  assumes "0 < n" and "blocks (latest s) = b0 # bs"
    and "hdr = \<lparr>miner = miner_address, parents = [blockCid env b0],
                 bh_height = height (latest s) + 1,
                 parentWeight = int (winCount b0) + parentWeight b0,
                 winCount = defaultWinCount\<rparr>"
    and "newTipset = \<lparr>blocks = replicate n hdr, height = height (latest s) + 1\<rparr>"
    and "applied = applyMessages env (messagePool s) (accounts s, warnings s, [])"
    and "advanced = advanceDeals env 0 (deals s, inProcessDeals s)"
  shows "mineTipset env n s =
     (None,
      s\<lparr>messagePool := [],
        accounts := (if messagePool s = [] then accounts s else fst applied),
        warnings := (if messagePool s = [] then warnings s else fst (snd applied)),
        blockMessages :=
          (if messagePool s = [] then blockMessages s
           else (blockMessages s)(blockCid env hdr \<mapsto> snd (snd applied))),
        latest := newTipset,
        tipsets := (tipsets s)(height (latest s) + 1 \<mapsto> newTipset),
        latestTipsetKey := height (latest s) + 1,
        deals := fst advanced,
        inProcessDeals := snd advanced,
        infoLog := infoLog s @ [(blockCid env hdr, height (latest s) + 1)],
        tipsetEvents := tipsetEvents s @ [newTipset]\<rparr>)"
proof -
  have nb: "newBlockHeaders env n (latest s) = Inr (hdr # replicate (n - 1) hdr)"
    using newBlockHeaders_Inr [OF assms(1,2), of env] assms(1,3) replicate_pos [of n hdr]
    by simp
  have rp: "replicate n hdr = hdr # replicate (n - 1) hdr"
    using assms(1) by (rule replicate_pos)
  show ?thesis
    unfolding mineTipset_def Let_def
    by (simp add: nb rp assms(4,5,6) cids_def split: prod.splits)
qed

lemma mineTipset_latest:
  assumes "0 < n" and "blocks (latest s) \<noteq> []"
  shows "fst (mineTipset env n s) = None"
    and "height (latest (snd (mineTipset env n s))) = height (latest s) + 1"
    and "blocks (latest (snd (mineTipset env n s))) \<noteq> []"
proof -
  obtain b0 bs where b: "blocks (latest s) = b0 # bs"
    using assms(2) by (cases "blocks (latest s)") auto
  note u = mineTipset_unfold [OF assms(1) b refl refl refl refl, of env]
  show "fst (mineTipset env n s) = None" by (simp add: u)
  show "height (latest (snd (mineTipset env n s))) = height (latest s) + 1" by (simp add: u)
  show "blocks (latest (snd (mineTipset env n s))) \<noteq> []" using assms(1) by (simp add: u)
qed

text \<open>\<open>mineTipset\<close> returns without error exactly when it is asked for at least one
  block and the latest tipset has a block: otherwise \<open>blocks[0]\<close> or \<open>cids[0]\<close> of an
  empty array is read.\<close>

lemma mineTipset_returns_iff:
  "fst (mineTipset env n s) = None \<longleftrightarrow> 0 < n \<and> blocks (latest s) \<noteq> []"
proof (cases "0 < n \<and> blocks (latest s) \<noteq> []")
  case True
  then show ?thesis using mineTipset_latest(1) [of n s env] by simp
next
  case False
  have "fst (mineTipset env n s) \<noteq> None"
  proof (cases "n = 0")
    case True
    then show ?thesis
      unfolding mineTipset_def Let_def
      by (simp add: newBlockHeaders_def cids_def split: prod.splits)
  next
    case pos: False
    with False have "blocks (latest s) = []" by simp
    with pos show ?thesis
      unfolding mineTipset_def Let_def
      by (simp add: newBlockHeaders_def)
  qed
  with False show ?thesis by auto
qed

lemma mineSuccessively_height:
  assumes "\<forall>n \<in> set ns. 0 < n" and "blocks (latest s) \<noteq> []"
  shows "height (latest (mineSuccessively env ns s)) = height (latest s) + length ns \<and>
         blocks (latest (mineSuccessively env ns s)) \<noteq> []"
  using assms
proof (induction ns arbitrary: s)
  case Nil
  then show ?case by (simp add: mineSuccessively_def)
next
  case (Cons n ns)
  have n: "0 < n" using Cons.prems(1) by simp
  have step: "mineSuccessively env (n # ns) s = mineSuccessively env ns (snd (mineTipset env n s))"
    by (simp add: mineSuccessively_def)
  from Cons.IH [of "snd (mineTipset env n s)"] Cons.prems(1)
    mineTipset_latest(2,3) [OF n Cons.prems(2), of env]
  show ?case by (simp add: step)
qed

text \<open>
  C4. A call \<open>mineTipset(n)\<close> returns without error exactly when \<open>n > 0\<close> and the
  latest tipset has a block. Then the new tipset has \<open>n\<close> blocks, each of height
  \<open>latest.height + 1\<close>, parents \<open>[latest.cids[0]]\<close>, parent weight
  \<open>latest.blocks[0].electionProof.winCount + latest.blocks[0].parentWeight\<close> and miner
  \<open>t01000\<close>; when the drained pool is not empty the block-messages stored under the
  first new block's CID are exactly \<open>successfulMessages\<close>, all of them messages of the
  pool; when the pool is empty nothing is stored.
\<close>

theorem mineTipset_new_blocks:
  assumes "s' = snd (mineTipset env n s)"
  shows "(fst (mineTipset env n s) = None \<longleftrightarrow> 0 < n \<and> blocks (latest s) \<noteq> []) \<and>
         (0 < n \<and> blocks (latest s) \<noteq> [] \<longrightarrow>
            length (blocks (latest s')) = n \<and>
            (\<forall>b \<in> set (blocks (latest s')).
               bh_height b = height (latest s) + 1 \<and>
               parents b = [cids env (latest s) ! 0] \<and>
               parentWeight b =
                 int (winCount (blocks (latest s) ! 0)) + parentWeight (blocks (latest s) ! 0) \<and>
               miner b = ''t01000'') \<and>
            (messagePool s \<noteq> [] \<longrightarrow>
               blockMessages s' (blockCid env (blocks (latest s') ! 0)) =
                 Some (snd (snd (applyMessages env (messagePool s) (accounts s, warnings s, []))))) \<and>
            (messagePool s = [] \<longrightarrow> blockMessages s' = blockMessages s) \<and>
            set (snd (snd (applyMessages env (messagePool s) (accounts s, warnings s, []))))
              \<subseteq> set (messagePool s))"
proof -
  have c1: "fst (mineTipset env n s) = None \<longleftrightarrow> 0 < n \<and> blocks (latest s) \<noteq> []"
    by (rule mineTipset_returns_iff)
  have c2: "length (blocks (latest s')) = n \<and>
            (\<forall>b \<in> set (blocks (latest s')).
               bh_height b = height (latest s) + 1 \<and>
               parents b = [cids env (latest s) ! 0] \<and>
               parentWeight b =
                 int (winCount (blocks (latest s) ! 0)) + parentWeight (blocks (latest s) ! 0) \<and>
               miner b = ''t01000'') \<and>
            (messagePool s \<noteq> [] \<longrightarrow>
               blockMessages s' (blockCid env (blocks (latest s') ! 0)) =
                 Some (snd (snd (applyMessages env (messagePool s) (accounts s, warnings s, []))))) \<and>
            (messagePool s = [] \<longrightarrow> blockMessages s' = blockMessages s) \<and>
            set (snd (snd (applyMessages env (messagePool s) (accounts s, warnings s, []))))
              \<subseteq> set (messagePool s)"
    if a: "0 < n \<and> blocks (latest s) \<noteq> []"
  proof -
    from a obtain b0 bs where b: "blocks (latest s) = b0 # bs"
      by (cases "blocks (latest s)") auto
    from a have n: "0 < n" by simp
    note u = mineTipset_unfold [OF n b refl refl refl refl, of env]
    have sub: "set (snd (snd (applyMessages env (messagePool s) (accounts s, warnings s, []))))
             \<subseteq> set (messagePool s)"
      using applyMessages_successful_subset [of env "messagePool s" "(accounts s, warnings s, [])"]
      by simp
    have first: "replicate n x ! 0 = x" for x :: BlockHeader
      using n by simp
    show ?thesis
      using sub by (simp add: assms u b cids_def miner_address_def first)
  qed
  from c1 c2 show ?thesis by blast
qed

lemma empty_pool_mined:
  "messagePool exampleState = [] \<and>
   fst (mineTipset exampleEnv 1 exampleState) = None \<and>
   blockMessages (snd (mineTipset exampleEnv 1 exampleState)) ''block-i'' = None"
  by (simp add: mine_defs example_defs)

lemma no_block_mined:
  "fst (mineTipset exampleEnv 0 batchState) = Some TypeError"
  by (simp add: batchState_def mine_defs example_defs)

text \<open>Two blocks mined over the pool of three messages, one block over an empty pool,
  and a call for no block.\<close>

theorem mineTipset_new_blocks_witness:
  "0 < (2::nat) \<and> blocks (latest batchState) \<noteq> [] \<and> messagePool batchState \<noteq> [] \<and>
   fst (mineTipset exampleEnv 2 batchState) = None \<and>
   blocks (latest (snd (mineTipset exampleEnv 2 batchState))) =
     [\<lparr>miner = ''t01000'', parents = [''block-''], bh_height = 1, parentWeight = 1, winCount = 1\<rparr>,
      \<lparr>miner = ''t01000'', parents = [''block-''], bh_height = 1, parentWeight = 1, winCount = 1\<rparr>] \<and>
   blockMessages (snd (mineTipset exampleEnv 2 batchState)) ''block-i'' =
     Some [signedBy (transferMessage ''t3alice'' ''t1bob'' 0 10),
           signedBy (transferMessage ''t3alice'' ''t1bob'' 1 1)] \<and>
   messagePool exampleState = [] \<and>
   fst (mineTipset exampleEnv 1 exampleState) = None \<and>
   blockMessages (snd (mineTipset exampleEnv 1 exampleState)) ''block-i'' = None \<and>
   fst (mineTipset exampleEnv 0 batchState) = Some TypeError"
proof -
  have two: "0 < (2::nat) \<and> blocks (latest batchState) \<noteq> [] \<and> messagePool batchState \<noteq> [] \<and>
   fst (mineTipset exampleEnv 2 batchState) = None \<and>
   blocks (latest (snd (mineTipset exampleEnv 2 batchState))) =
     [\<lparr>miner = ''t01000'', parents = [''block-''], bh_height = 1, parentWeight = 1, winCount = 1\<rparr>,
      \<lparr>miner = ''t01000'', parents = [''block-''], bh_height = 1, parentWeight = 1, winCount = 1\<rparr>] \<and>
   blockMessages (snd (mineTipset exampleEnv 2 batchState)) ''block-i'' =
     Some [signedBy (transferMessage ''t3alice'' ''t1bob'' 0 10),
           signedBy (transferMessage ''t3alice'' ''t1bob'' 1 1)]"
    using mineTipset_new_blocks [where n = 2 and s = batchState and env = exampleEnv, OF refl]
    by (simp add: batchState_def mine_defs example_defs eval_nat_numeral)
  note none = mineTipset_new_blocks [where n = 0 and s = batchState and env = exampleEnv, OF refl]
  from none have "fst (mineTipset exampleEnv 0 batchState) \<noteq> None" by simp
  with two empty_pool_mined no_block_mined show ?thesis by blast
qed

text \<open>
  C7. Whatever the pool holds (so also when it is empty), a call \<open>mineTipset(n)\<close>
  returns without error exactly when \<open>n > 0\<close> and the latest tipset has a block. It then
  makes a new latest tipset of height \<open>latest.height + 1\<close>, stored under that height,
  written as \<open>latest-tipset\<close> and emitted as the \<open>tipset\<close> event; the new tipset again
  has a block, so after any number of successive such calls the height has grown by the
  number of calls.
\<close>

theorem mineTipset_height:
  assumes "s' = snd (mineTipset env n s)"
  shows "(fst (mineTipset env n s) = None \<longleftrightarrow> 0 < n \<and> blocks (latest s) \<noteq> []) \<and>
         (0 < n \<and> blocks (latest s) \<noteq> [] \<longrightarrow>
            height (latest s') = height (latest s) + 1 \<and>
            height (latest s) < height (latest s') \<and>
            tipsets s' (height (latest s) + 1) = Some (latest s') \<and>
            latestTipsetKey s' = height (latest s) + 1 \<and>
            tipsetEvents s' = tipsetEvents s @ [latest s'] \<and>
            blocks (latest s') \<noteq> []) \<and>
         ((\<forall>k \<in> set ns. 0 < k) \<and> blocks (latest s) \<noteq> [] \<longrightarrow>
            height (latest (mineSuccessively env ns s)) = height (latest s) + length ns)"
proof -
  have c1: "fst (mineTipset env n s) = None \<longleftrightarrow> 0 < n \<and> blocks (latest s) \<noteq> []"
    by (rule mineTipset_returns_iff)
  have c2: "height (latest s') = height (latest s) + 1 \<and>
            height (latest s) < height (latest s') \<and>
            tipsets s' (height (latest s) + 1) = Some (latest s') \<and>
            latestTipsetKey s' = height (latest s) + 1 \<and>
            tipsetEvents s' = tipsetEvents s @ [latest s'] \<and>
            blocks (latest s') \<noteq> []"
    if a: "0 < n \<and> blocks (latest s) \<noteq> []"
  proof -
    from a obtain b0 bs where b: "blocks (latest s) = b0 # bs"
      by (cases "blocks (latest s)") auto
    from a have n: "0 < n" by simp
    note u = mineTipset_unfold [OF n b refl refl refl refl, of env]
    show ?thesis
      using n by (simp add: assms u)
  qed
  have c3: "height (latest (mineSuccessively env ns s)) = height (latest s) + length ns"
    if "(\<forall>k \<in> set ns. 0 < k) \<and> blocks (latest s) \<noteq> []"
    using that mineSuccessively_height [of ns s env] by simp
  from c1 c2 c3 show ?thesis by blast
qed

text \<open>Mining on the genesis tipset with an empty pool.\<close>

theorem mineTipset_height_witness:
  "messagePool exampleState = [] \<and> blocks (latest exampleState) \<noteq> [] \<and>
   fst (mineTipset exampleEnv 1 exampleState) = None \<and>
   height (latest exampleState) = 0 \<and>
   height (latest (snd (mineTipset exampleEnv 1 exampleState))) = 1 \<and>
   tipsets (snd (mineTipset exampleEnv 1 exampleState)) 1 =
     Some \<lparr>blocks = [\<lparr>miner = ''t01000'', parents = [''block-''], bh_height = 1,
                        parentWeight = 1, winCount = 1\<rparr>], height = 1\<rparr> \<and>
   height (latest (mineSuccessively exampleEnv [1, 2] exampleState)) = 2"
proof -
  have e: "messagePool exampleState = [] \<and> blocks (latest exampleState) \<noteq> [] \<and>
      height (latest exampleState) = 0"
    by (simp add: example_defs)
  have t: "tipsets (snd (mineTipset exampleEnv 1 exampleState)) 1 =
     Some \<lparr>blocks = [\<lparr>miner = ''t01000'', parents = [''block-''], bh_height = 1,
                        parentWeight = 1, winCount = 1\<rparr>], height = 1\<rparr>"
    by (simp add: mine_defs example_defs)
  from mineTipset_height
      [where n = 1 and s = exampleState and env = exampleEnv and ns = "[1, 2]", OF refl]
    e t show ?thesis by simp
qed

text \<open>
  C2, as amended. For every message of the batch: when \<open>getBaseFee()\<close> is not 0 the
  amount \<open>getMinerFee(m)\<close> is first transferred from the sender to \<open>BurntFundsAddress\<close>
  (when it is 0 no such transfer is attempted); then \<open>getMinerFee(m)\<close> goes from the
  sender to the miner; then the value goes from the sender to the recipient. If all
  attempted transfers succeed the sender's nonce is incremented and the message joins
  \<open>successfulMessages\<close>. If one fails the message is skipped: one warning is logged, the
  message does not join \<open>successfulMessages\<close>, no nonce changes, and the ledger is the
  one the earlier transfers left. The loop goes on with the rest of the batch, and
  \<open>mineTipset\<close> returns without an error, its ledger being the loop's.
\<close>

theorem applyMessage_transfers:
  assumes "src = msg_from (message sm)" and "fee = getMinerFee env (message sm)"
    and "burn = (if getBaseFee env \<noteq> 0 then transferFunds am src BurntFundsAddress fee
                 else (True, am))"
    and "pay = transferFunds (snd burn) src miner_address fee"
    and "send = transferFunds (snd pay) src (msg_to (message sm)) (msg_value (message sm))"
    and "result = applyMessage env sm (am, ws, successfulMessages)"
  shows "(fst burn \<and> fst pay \<and> fst send \<longrightarrow>
            result = (incrementNonce (snd send) src, ws, successfulMessages @ [sm])) \<and>
         (\<not> (fst burn \<and> fst pay \<and> fst send) \<longrightarrow>
            (\<exists>w. snd result = (ws @ [w], successfulMessages)) \<and>
            (\<forall>a. nonce (fst result a) = nonce (am a)) \<and>
            fst result = (if \<not> fst burn then am else if \<not> fst pay then snd burn else snd pay)) \<and>
         applyMessages env (sm # rest) (am, ws, successfulMessages) = applyMessages env rest result \<and>
         (0 < n \<and> blocks (latest s) \<noteq> [] \<longrightarrow>
            fst (mineTipset env n s) = None \<and>
            (messagePool s \<noteq> [] \<longrightarrow>
               accounts (snd (mineTipset env n s)) =
                 fst (applyMessages env (messagePool s) (accounts s, warnings s, []))))"
proof -
  have r: "result =
      (if \<not> fst burn
       then (snd burn,
             ws @ [CouldNotBurnBaseFee (getBaseFee env) src (balance (snd burn src))],
             successfulMessages)
       else if \<not> fst pay
       then (snd pay, ws @ [CouldNotTransferMiningFees fee src (balance (snd pay src))],
             successfulMessages)
       else if \<not> fst send
       then (snd send,
             ws @ [CouldNotTransferValue (msg_value (message sm)) src (msg_to (message sm))
                     (balance (snd send src))],
             successfulMessages)
       else (incrementNonce (snd send) src, ws, successfulMessages @ [sm]))"
    unfolding assms by (simp add: applyMessage_unfold Let_def)
  have burn_failed: "\<not> fst burn \<Longrightarrow> snd burn = am"
    unfolding assms(3) by (auto simp: transferFunds_failed split: if_splits)
  have pay_failed: "\<not> fst pay \<Longrightarrow> snd pay = snd burn"
    unfolding assms(4) by (rule transferFunds_failed)
  have send_failed: "\<not> fst send \<Longrightarrow> snd send = snd pay"
    unfolding assms(5) by (rule transferFunds_failed)
  have burn_nonce: "nonce (snd burn a) = nonce (am a)" for a
    unfolding assms(3) by (simp add: transferFunds_nonce)
  have pay_nonce: "nonce (snd pay a) = nonce (am a)" for a
    unfolding assms(4) by (simp add: transferFunds_nonce burn_nonce)
  have c1: "fst burn \<and> fst pay \<and> fst send \<longrightarrow>
            result = (incrementNonce (snd send) src, ws, successfulMessages @ [sm])"
    by (simp add: r)
  have c2: "\<not> (fst burn \<and> fst pay \<and> fst send) \<longrightarrow>
            (\<exists>w. snd result = (ws @ [w], successfulMessages)) \<and>
            (\<forall>a. nonce (fst result a) = nonce (am a)) \<and>
            fst result = (if \<not> fst burn then am else if \<not> fst pay then snd burn else snd pay)"
    using burn_failed pay_failed send_failed burn_nonce pay_nonce by (auto simp: r)
  have c3: "applyMessages env (sm # rest) (am, ws, successfulMessages) = applyMessages env rest result"
    by (simp add: assms(6))
  have c4: "0 < n \<and> blocks (latest s) \<noteq> [] \<longrightarrow>
            fst (mineTipset env n s) = None \<and>
            (messagePool s \<noteq> [] \<longrightarrow>
               accounts (snd (mineTipset env n s)) =
                 fst (applyMessages env (messagePool s) (accounts s, warnings s, [])))"
  proof (intro impI, elim conjE)
    assume n: "0 < n" and nb: "blocks (latest s) \<noteq> []"
    obtain b0 bs where b: "blocks (latest s) = b0 # bs"
      using nb by (cases "blocks (latest s)") auto
    note u = mineTipset_unfold [OF n b refl refl refl refl, of env]
    show "fst (mineTipset env n s) = None \<and>
            (messagePool s \<noteq> [] \<longrightarrow>
               accounts (snd (mineTipset env n s)) =
                 fst (applyMessages env (messagePool s) (accounts s, warnings s, [])))"
      by (simp add: u)
  qed
  from c1 c2 c3 c4 show ?thesis by blast
qed

lemma batch_mined:
  "fst (mineTipset exampleEnv 1 batchState) = None \<and>
   blockMessages (snd (mineTipset exampleEnv 1 batchState)) ''block-i'' =
     Some [signedBy (transferMessage ''t3alice'' ''t1bob'' 0 10),
           signedBy (transferMessage ''t3alice'' ''t1bob'' 1 1)] \<and>
   warnings (snd (mineTipset exampleEnv 1 batchState)) =
     [CouldNotTransferValue 100 ''t1bob'' ''t3alice'' 16] \<and>
   nonce (accounts (snd (mineTipset exampleEnv 1 batchState)) ''t1bob'') = 5 \<and>
   nonce (accounts (snd (mineTipset exampleEnv 1 batchState)) ''t3alice'') = 2 \<and>
   balance (accounts (snd (mineTipset exampleEnv 1 batchState)) ''t01000'') = 3"
  by (simp add: batchState_def mine_defs example_defs)

text \<open>With a base fee of 1: a message whose three transfers succeed, one whose
  mining fee fails after the burn has been made, and a mined batch whose second message
  is skipped.\<close>

theorem applyMessage_transfers_witness:
  "snd (applyMessage burningEnv (signedBy (transferMessage ''t3alice'' ''t1bob'' 0 10))
          (exampleAccounts, [], []))
     = ([], [signedBy (transferMessage ''t3alice'' ''t1bob'' 0 10)]) \<and>
   balance (fst (applyMessage burningEnv (signedBy (transferMessage ''t3alice'' ''t1bob'' 0 10))
                   (exampleAccounts, [], [])) ''t099'') = 1 \<and>
   nonce (fst (applyMessage burningEnv (signedBy (transferMessage ''t3alice'' ''t1bob'' 0 10))
                 (exampleAccounts, [], [])) ''t3alice'') = 1 \<and>
   snd (applyMessage burningEnv (signedBy (feeMessage ''t1bob'' ''t3alice'' 5 1 5))
          (exampleAccounts, [], []))
     = ([CouldNotTransferMiningFees 5 ''t1bob'' 2], []) \<and>
   balance (fst (applyMessage burningEnv (signedBy (feeMessage ''t1bob'' ''t3alice'' 5 1 5))
                   (exampleAccounts, [], [])) ''t099'') = 5 \<and>
   nonce (fst (applyMessage burningEnv (signedBy (feeMessage ''t1bob'' ''t3alice'' 5 1 5))
                 (exampleAccounts, [], [])) ''t1bob'') = 5 \<and>
   fst (mineTipset exampleEnv 1 batchState) = None \<and>
   blockMessages (snd (mineTipset exampleEnv 1 batchState)) ''block-i'' =
     Some [signedBy (transferMessage ''t3alice'' ''t1bob'' 0 10),
           signedBy (transferMessage ''t3alice'' ''t1bob'' 1 1)] \<and>
   warnings (snd (mineTipset exampleEnv 1 batchState)) =
     [CouldNotTransferValue 100 ''t1bob'' ''t3alice'' 16]"
proof -
  note ok = applyMessage_transfers
    [where env = burningEnv and sm = "signedBy (transferMessage ''t3alice'' ''t1bob'' 0 10)"
       and am = exampleAccounts and ws = "[]" and successfulMessages = "[]" and rest = "[]"
       and n = 1 and s = batchState,
     OF refl refl refl refl refl refl]
  note skipped = applyMessage_transfers
    [where env = burningEnv and sm = "signedBy (feeMessage ''t1bob'' ''t3alice'' 5 1 5)"
       and am = exampleAccounts and ws = "[]" and successfulMessages = "[]" and rest = "[]"
       and n = 1 and s = batchState,
     OF refl refl refl refl refl refl]
  have a: "snd (applyMessage burningEnv (signedBy (transferMessage ''t3alice'' ''t1bob'' 0 10))
          (exampleAccounts, [], []))
     = ([], [signedBy (transferMessage ''t3alice'' ''t1bob'' 0 10)]) \<and>
   balance (fst (applyMessage burningEnv (signedBy (transferMessage ''t3alice'' ''t1bob'' 0 10))
                   (exampleAccounts, [], [])) ''t099'') = 1 \<and>
   nonce (fst (applyMessage burningEnv (signedBy (transferMessage ''t3alice'' ''t1bob'' 0 10))
                 (exampleAccounts, [], [])) ''t3alice'') = 1"
    using ok by (simp add: mine_defs example_defs burningEnv_def)
  have b: "snd (applyMessage burningEnv (signedBy (feeMessage ''t1bob'' ''t3alice'' 5 1 5))
          (exampleAccounts, [], []))
     = ([CouldNotTransferMiningFees 5 ''t1bob'' 2], []) \<and>
   balance (fst (applyMessage burningEnv (signedBy (feeMessage ''t1bob'' ''t3alice'' 5 1 5))
                   (exampleAccounts, [], [])) ''t099'') = 5 \<and>
   nonce (fst (applyMessage burningEnv (signedBy (feeMessage ''t1bob'' ''t3alice'' 5 1 5))
                 (exampleAccounts, [], [])) ''t1bob'') = 5"
    using skipped by (simp add: mine_defs example_defs burningEnv_def feeMessage_def)
  from a b batch_mined show ?thesis by simp
qed

text \<open>
  C2 as stated fails. With \<open>getBaseFee() = 0\<close> and a miner fee of 5, a sender holding 7
  is charged no burn and the message succeeds; with the three transfers of the claim the
  burn of \<open>minerFee(m)\<close> would leave 2 and the mining fee would fail. And were the burn
  the base fee itself, then with \<open>getBaseFee() = 1\<close> the code burns 5, not 1, and skips a
  message that three transfers of 1, 5 and 1 would apply.
\<close>

theorem applyMessage_claim_counterexample:
  "getBaseFee exampleEnv = 0 \<and>
   getMinerFee exampleEnv (message (signedBy (feeMessage ''t1bob'' ''t3alice'' 5 1 5))) = 5 \<and>
   snd (snd (applyMessage exampleEnv (signedBy (feeMessage ''t1bob'' ''t3alice'' 5 1 5))
               (exampleAccounts, [], [])))
     = [signedBy (feeMessage ''t1bob'' ''t3alice'' 5 1 5)] \<and>
   balance (fst (applyMessage exampleEnv (signedBy (feeMessage ''t1bob'' ''t3alice'' 5 1 5))
                   (exampleAccounts, [], [])) BurntFundsAddress) = 0 \<and>
   snd (snd (claimedApplyMessage exampleEnv 5 (signedBy (feeMessage ''t1bob'' ''t3alice'' 5 1 5))
               (exampleAccounts, [], []))) = [] \<and>
   balance (fst (claimedApplyMessage exampleEnv 5 (signedBy (feeMessage ''t1bob'' ''t3alice'' 5 1 5))
                   (exampleAccounts, [], [])) BurntFundsAddress) = 5 \<and>
   getBaseFee burningEnv = 1 \<and>
   snd (snd (applyMessage burningEnv (signedBy (feeMessage ''t1bob'' ''t3alice'' 5 1 5))
               (exampleAccounts, [], []))) = [] \<and>
   balance (fst (applyMessage burningEnv (signedBy (feeMessage ''t1bob'' ''t3alice'' 5 1 5))
                   (exampleAccounts, [], [])) BurntFundsAddress) = 5 \<and>
   snd (snd (claimedApplyMessage burningEnv 1 (signedBy (feeMessage ''t1bob'' ''t3alice'' 5 1 5))
               (exampleAccounts, [], [])))
     = [signedBy (feeMessage ''t1bob'' ''t3alice'' 5 1 5)] \<and>
   balance (fst (claimedApplyMessage burningEnv 1 (signedBy (feeMessage ''t1bob'' ''t3alice'' 5 1 5))
                   (exampleAccounts, [], [])) BurntFundsAddress) = 1"
  by (simp add: mine_defs example_defs burningEnv_def feeMessage_def claimedApplyMessage_def)

subsection \<open>Deals and retrieval\<close>

lemmas deal_defs =
  exampleProposal_def startDeal_def newDeal_def registerDeal_def getIPFSObjectSize_def
  hasLocal_def hasPrivateKey_def retrieve_def downloadFile_def

text \<open>
  C5: the code departs from it. When a deal becomes \<open>Active\<close> it is spliced out of
  \<open>inProcessDeals\<close> while the \<open>for ... of\<close> loop is running over that array, so the
  deal that follows it is not visited in this call. Here the first deal is one step
  before \<open>Active\<close> and the second is in \<open>Validating\<close>: one \<open>mineTipset\<close> makes the first
  \<open>Active\<close> and leaves the second in \<open>Validating\<close>. The state arises from two calls of
  \<open>startDeal\<close> with a mined tipset between them, and the second deal, two states away
  from \<open>Active\<close>, is not \<open>Active\<close> after two mined tipsets but after three.
\<close>

theorem advanceDeals_skips_next_deal:
  "advanceState exampleEnv 1 = Active exampleEnv \<and>
   advanceState exampleEnv 0 \<noteq> 0 \<and>
   advanceDeals exampleEnv 0 ([exampleDeal 1 1, exampleDeal 2 0], [0, 1])
     = ([exampleDeal 1 2, exampleDeal 2 0], [1]) \<and>
   fst (mineTipset exampleEnv 1 twoDealsState) = None \<and>
   deals (snd (mineTipset exampleEnv 1 twoDealsState)) = [exampleDeal 1 2, exampleDeal 2 0] \<and>
   inProcessDeals (snd (mineTipset exampleEnv 1 twoDealsState)) = [1] \<and>
   deals secondDealState = [exampleDeal 1 1, exampleDeal 2 0] \<and>
   inProcessDeals secondDealState = [0, 1] \<and>
   Validating exampleEnv = 0 \<and> Active exampleEnv = 2 \<and>
   map state (deals (mineSuccessively exampleEnv [1] secondDealState)) = [2, 0] \<and>
   map state (deals (mineSuccessively exampleEnv [1, 1] secondDealState)) = [2, 1] \<and>
   map state (deals (mineSuccessively exampleEnv [1, 1, 1] secondDealState)) = [2, 2]"
  by (simp add: secondDealState_def firstDealState_def resultState_def twoDealsState_def
        exampleDeal_def mineSuccessively_def mine_defs example_defs deal_defs)

lemma writeChunks_content:
  "writeChunks env rp pp chunks fs = (None, fs') \<Longrightarrow> fs pp = Some old \<Longrightarrow>
     fs' = fs(pp \<mapsto> old @ concat chunks)"
proof (induction chunks arbitrary: fs old)
  case Nil
  then show ?case by auto
next
  case (Cons chunk chunks)
  from Cons.prems have nf: "\<not> writeFails env pp chunk"
    by (auto split: if_splits)
  with Cons.prems have w:
    "writeChunks env rp pp chunks (fs(pp \<mapsto> old @ chunk)) = (None, fs')"
    by simp
  have p: "(fs(pp \<mapsto> old @ chunk)) pp = Some (old @ chunk)"
    by simp
  have "fs' = (fs(pp \<mapsto> old @ chunk))(pp \<mapsto> (old @ chunk) @ concat chunks)"
    by (rule Cons.IH [OF w p])
  then show ?case by simp
qed

lemma downloadFile_complete:
  assumes "downloadFile env cid ref fs = (None, fs')"
  shows "fs' (ref_path ref) = Some (concat (fst (filesRead env cid)))"
proof -
  obtain chunks readThrows where fr: "filesRead env cid = (chunks, readThrows)"
    by (cases "filesRead env cid") auto
  let ?pp = "ref_path ref @ ''.partial''"
  from assms fr obtain fs2 where
    w: "writeChunks env (ref_path ref) ?pp chunks (fs(?pp \<mapsto> [])) = (None, fs2)"
    and f: "fs' = (fs2(ref_path ref := fs2 ?pp))(?pp := None)"
    by (auto simp: downloadFile_def Let_def split: if_splits prod.splits option.splits)
  from writeChunks_content [OF w, of "[]"] have "fs2 ?pp = Some (concat chunks)"
    by simp
  with f fr show ?thesis by simp
qed

text \<open>
  C10. When the engine holds no private key of \<open>order.client\<close>, \<open>retrieve\<close> raises with
  the state as it was: no file is written and no funds move. Whenever \<open>retrieve\<close>
  raises, the ledger is unchanged. When it returns, the key was held, the object was
  found locally, \<open>downloadFile\<close> has returned without error and the file at \<open>ref.path\<close>
  holds all the chunks read; the ledger is then the one \<open>transferFunds\<close> of
  \<open>order.total\<close> from the client to the miner leaves.
\<close>

theorem retrieve_checks_before_effects:
  assumes "result = retrieve env retrievalOrder ref s"
  shows "(\<not> hasPrivateKey (getAccount (accounts s) (ro_client retrievalOrder)) \<longrightarrow>
            result = (Some (UnknownPrivateKey (ro_client retrievalOrder)), s)) \<and>
         (fst result \<noteq> None \<longrightarrow> accounts (snd result) = accounts s) \<and>
         (fst result = None \<longrightarrow>
            hasPrivateKey (getAccount (accounts s) (ro_client retrievalOrder)) \<and>
            hasLocal env (ro_root retrievalOrder) \<and>
            downloadFile env (ro_root retrievalOrder) ref (files s) = (None, files (snd result)) \<and>
            files (snd result) (ref_path ref) =
              Some (concat (fst (filesRead env (ro_root retrievalOrder)))) \<and>
            accounts (snd result) =
              snd (transferFunds (accounts s) (ro_client retrievalOrder)
                     (ro_miner retrievalOrder) (ro_total retrievalOrder)))"
proof -
  have c1: "\<not> hasPrivateKey (getAccount (accounts s) (ro_client retrievalOrder)) \<longrightarrow>
            result = (Some (UnknownPrivateKey (ro_client retrievalOrder)), s)"
    by (simp add: assms retrieve_def Let_def)
  have c2: "fst result \<noteq> None \<longrightarrow> accounts (snd result) = accounts s"
    by (auto simp: assms retrieve_def Let_def split: prod.splits option.splits)
  have c3: "fst result = None \<longrightarrow>
            hasPrivateKey (getAccount (accounts s) (ro_client retrievalOrder)) \<and>
            hasLocal env (ro_root retrievalOrder) \<and>
            downloadFile env (ro_root retrievalOrder) ref (files s) = (None, files (snd result)) \<and>
            accounts (snd result) =
              snd (transferFunds (accounts s) (ro_client retrievalOrder)
                     (ro_miner retrievalOrder) (ro_total retrievalOrder))"
    by (auto simp: assms retrieve_def Let_def split: prod.splits option.splits if_splits)
  from c1 c2 c3 downloadFile_complete [of env "ro_root retrievalOrder" ref "files s" "files (snd result)"]
  show ?thesis by blast
qed

text \<open>A client without a key, a retrieval that succeeds, and one whose rename
  fails after the download.\<close>

theorem retrieve_checks_before_effects_witness:
  "\<not> hasPrivateKey (getAccount (accounts exampleState) ''t3carol'') \<and>
   retrieve exampleEnv (exampleOrder ''t3carol'') \<lparr>ref_path = ''/tmp/out''\<rparr> exampleState
     = (Some (UnknownPrivateKey ''t3carol''), exampleState) \<and>
   fst (retrieve exampleEnv (exampleOrder ''t3alice'') \<lparr>ref_path = ''/tmp/out''\<rparr> exampleState)
     = None \<and>
   files (snd (retrieve exampleEnv (exampleOrder ''t3alice'') \<lparr>ref_path = ''/tmp/out''\<rparr> exampleState))
     ''/tmp/out'' = Some ''abcd'' \<and>
   balance (accounts (snd (retrieve exampleEnv (exampleOrder ''t3alice'')
                             \<lparr>ref_path = ''/tmp/out''\<rparr> exampleState)) ''t3alice'') = 95 \<and>
   fst (retrieve exampleEnv (exampleOrder ''t3alice'') \<lparr>ref_path = ''/tmp/out''\<rparr>
          (exampleState\<lparr>files := [''/tmp/keep'' \<mapsto> ''x'']\<rparr>)) = None \<and>
   fst (retrieve (exampleEnv\<lparr>renameFails := (\<lambda>p. True)\<rparr>) (exampleOrder ''t3alice'')
          \<lparr>ref_path = ''/tmp/out''\<rparr> exampleState) = Some (External ''rename'') \<and>
   balance (accounts (snd (retrieve (exampleEnv\<lparr>renameFails := (\<lambda>p. True)\<rparr>)
                             (exampleOrder ''t3alice'') \<lparr>ref_path = ''/tmp/out''\<rparr> exampleState))
              ''t3alice'') = 100"
  using
    retrieve_checks_before_effects
      [where env = exampleEnv and retrievalOrder = "exampleOrder ''t3carol''"
         and ref = "\<lparr>ref_path = ''/tmp/out''\<rparr>" and s = exampleState, OF refl]
    retrieve_checks_before_effects
      [where env = exampleEnv and retrievalOrder = "exampleOrder ''t3alice''"
         and ref = "\<lparr>ref_path = ''/tmp/out''\<rparr>" and s = exampleState, OF refl]
    retrieve_checks_before_effects
      [where env = "exampleEnv\<lparr>renameFails := (\<lambda>p. True)\<rparr>"
         and retrievalOrder = "exampleOrder ''t3alice''"
         and ref = "\<lparr>ref_path = ''/tmp/out''\<rparr>" and s = exampleState, OF refl]
  by (simp add: exampleOrder_def deal_defs example_defs getAccount_def transferFunds_def Let_def)

lemma eraseState_fields:
  "pricePerEpoch (eraseState d) = pricePerEpoch d"
  "duration (eraseState d) = duration d"
  "proposalCid (eraseState d) = proposalCid d"
  by (simp_all add: eraseState_def)

lemma erase_update:
  "map eraseState (ds[r := (ds ! r)\<lparr>state := v\<rparr>]) = map eraseState ds"
proof (cases "r < length ds")
  case True
  have "eraseState ((ds ! r)\<lparr>state := v\<rparr>) = map eraseState ds ! r"
    using True by (simp add: eraseState_def)
  then show ?thesis
    using True by (simp add: map_update list_update_same_conv)
next
  case False
  then show ?thesis by (simp add: list_update_beyond)
qed

lemma advanceDeals_erase:
  "map eraseState (fst (advanceDeals env i p)) = map eraseState (fst p)"
proof (induction env i p rule: advanceDeals.induct)
  case (1 env i ds inProcess)
  show ?case
  proof (cases "i < length inProcess")
    case False
    then show ?thesis by (subst advanceDeals.simps) simp
  next
    case True
    let ?deal = "inProcess ! i"
    let ?ds = "ds[?deal := (ds ! ?deal)\<lparr>state := advanceState env (state (ds ! ?deal))\<rparr>]"
    show ?thesis
    proof (cases "state (?ds ! ?deal) = Active env")
      case active: True
      have "advanceDeals env i (ds, inProcess) =
              advanceDeals env (Suc i) (?ds, remove1 ?deal inProcess)"
        using True active by (subst advanceDeals.simps) (simp add: Let_def del: advanceDeals.simps)
      with "1.IH"(1) [OF True refl refl active] show ?thesis
        by (simp add: erase_update del: advanceDeals.simps)
    next
      case inactive: False
      have "advanceDeals env i (ds, inProcess) = advanceDeals env (Suc i) (?ds, inProcess)"
        using True inactive by (subst advanceDeals.simps) (simp add: Let_def del: advanceDeals.simps)
      with "1.IH"(2) [OF True refl refl inactive] show ?thesis
        by (simp add: erase_update del: advanceDeals.simps)
    qed
  qed
qed

lemma mineTipset_erase:
  "map eraseState (deals (snd (mineTipset env n s))) = map eraseState (deals s)"
proof -
  have a: "advanceDeals env 0 (ds, ip) = (ds', ip') \<Longrightarrow> map eraseState ds' = map eraseState ds"
    for ds ip ds' ip'
    using advanceDeals_erase [of env 0 "(ds, ip)"] by simp
  show ?thesis
    unfolding mineTipset_def Let_def
    by (auto simp del: advanceDeals.simps
             split: sum.splits prod.splits list.splits if_splits dest: a)
qed

lemma mineUntilActive_erase:
  assumes "mineUntilActive env r s = Some y"
  shows "map eraseState (deals (snd y)) = map eraseState (deals s)"
proof (rule mineUntilActive.raw_induct
         [where P = "\<lambda>env r s y. map eraseState (deals (snd y)) = map eraseState (deals s)",
          OF _ assms])
  fix f :: "Env \<Rightarrow> nat \<Rightarrow> State \<Rightarrow> (error option \<times> State) option"
    and env :: Env and deal :: nat and s :: State and y :: "error option \<times> State"
  assume IH: "\<And>env' deal' s' y'. f env' deal' s' = Some y' \<Longrightarrow>
                 map eraseState (deals (snd y')) = map eraseState (deals s')"
  assume eq: "(if state (deals s ! deal) \<noteq> Active env
               then case mineTipset env 1 s of
                      (None, s') \<Rightarrow> f env deal s'
                    | (Some e, s') \<Rightarrow> Some (Some e, s')
               else Some (None, s)) = Some y"
  show "map eraseState (deals (snd y)) = map eraseState (deals s)"
  proof (cases "state (deals s ! deal) \<noteq> Active env")
    case False
    with eq show ?thesis by auto
  next
    case True
    obtain e s' where m: "mineTipset env 1 s = (e, s')"
      by (cases "mineTipset env 1 s") auto
    have s': "map eraseState (deals s') = map eraseState (deals s)"
      using mineTipset_erase [of env 1 s] m by simp
    show ?thesis
    proof (cases e)
      case (Some err)
      with eq True m s' show ?thesis by auto
    next
      case None
      with eq True m have "f env deal s' = Some y"
        by simp
      from IH [OF this] s' show ?thesis by simp
    qed
  qed
qed

lemma map_eq_nth:
  assumes "map f xs = map f ys" and "i < length ys"
  shows "f (xs ! i) = f (ys ! i)"
proof -
  have "length xs = length ys" using assms(1) by (rule map_eq_imp_length_eq)
  with assms(2) have "map f xs ! i = f (xs ! i)" and "map f ys ! i = f (ys ! i)"
    by simp_all
  with assms(1) show ?thesis by simp
qed

lemma registerAndMine_deal:
  assumes "registerAndMine env proposal s sigdata objectSize = Some (res, s2)"
  shows "pricePerEpoch (deals s2 ! length (deals s)) = epochPrice proposal \<and>
         duration (deals s2 ! length (deals s)) = minBlocksDuration proposal \<and>
         proposalCid (deals s2 ! length (deals s)) = dagCborCid env sigdata"
proof -
  define sz where "sz = (if data_pieceSize proposal \<noteq> 0 then data_pieceSize proposal else objectSize)"
  let ?deal = "newDeal env proposal (dagCborCid env sigdata) sz s"
  let ?s1 = "registerDeal ?deal s"
  have d1: "deals ?s1 = deals s @ [?deal]"
    by (simp add: registerDeal_def)
  have mined: "(if blockTime env = 0 then mineUntilActive env (length (deals s)) ?s1
                else Some (None, ?s1)) = Some (res, s2)"
    using assms unfolding registerAndMine_def Let_def sz_def .
  have "map eraseState (deals s2) = map eraseState (deals ?s1)"
  proof (cases "blockTime env = 0")
    case True
    with mined have "mineUntilActive env (length (deals s)) ?s1 = Some (res, s2)" by simp
    from mineUntilActive_erase [OF this] show ?thesis by simp
  next
    case False
    with mined show ?thesis by simp
  qed
  then have "eraseState (deals s2 ! length (deals s)) = eraseState (deals ?s1 ! length (deals s))"
    by (rule map_eq_nth) (simp add: d1)
  then have e: "eraseState (deals s2 ! length (deals s)) = eraseState ?deal"
    by (simp add: d1)
  have "pricePerEpoch (deals s2 ! length (deals s)) = epochPrice proposal"
    using arg_cong [OF e, of pricePerEpoch] by (simp add: eraseState_fields newDeal_def)
  moreover have "duration (deals s2 ! length (deals s)) = minBlocksDuration proposal"
    using arg_cong [OF e, of duration] by (simp add: eraseState_fields newDeal_def)
  moreover have "proposalCid (deals s2 ! length (deals s)) = dagCborCid env sigdata"
    using arg_cong [OF e, of proposalCid] by (simp add: eraseState_fields newDeal_def)
  ultimately show ?thesis by simp
qed

lemma startDeal_unfold:
  assumes "wallet proposal = Some w"
    and "getIPFSObjectSize env (data_root proposal) = Inr objectSize"
    and "hasPrivateKey (getAccount (accounts s) w)"
    and "signProposal env (getAccount (accounts s) w) proposal = Inr sigdata"
  shows "startDeal env proposal s =
           (case registerAndMine env proposal s sigdata objectSize of
              None \<Rightarrow> None
            | Some (Some e, s2) \<Rightarrow> Some (Inl e, s2)
            | Some (None, s2) \<Rightarrow>
                Some (Inr (proposalCid (deals s2 ! length (deals s))),
                      s2\<lparr>accounts :=
                           snd (transferFunds (accounts s2) w (sdp_miner proposal)
                                  (pricePerEpoch (deals s2 ! length (deals s)) *
                                   duration (deals s2 ! length (deals s))))\<rparr>))"
proof (cases "data_pieceSize proposal = 0")
  case True
  then show ?thesis
    unfolding startDeal_def registerAndMine_def Let_def
    by (simp add: assms)
next
  case False
  then show ?thesis
    unfolding startDeal_def registerAndMine_def Let_def
    by (simp add: assms)
qed

text \<open>A call that gets through registration and mining returns the CID, whatever
  \<open>transferFunds\<close> answers.\<close>

lemma startDeal_returns:
  assumes "wallet proposal = Some w"
    and "getIPFSObjectSize env (data_root proposal) = Inr objectSize"
    and "hasPrivateKey (getAccount (accounts s) w)"
    and "signProposal env (getAccount (accounts s) w) proposal = Inr sigdata"
    and "registerAndMine env proposal s sigdata objectSize = Some (None, s2)"
  shows "startDeal env proposal s =
           Some (Inr (dagCborCid env sigdata),
                 s2\<lparr>accounts :=
                      snd (transferFunds (accounts s2) w (sdp_miner proposal)
                             (epochPrice proposal * minBlocksDuration proposal))\<rparr>)"
  using registerAndMine_deal [OF assms(5)]
  by (simp add: startDeal_unfold [OF assms(1,2,3,4)] assms(5))

text \<open>A call that returns a CID has got through registration and mining.\<close>

lemma startDeal_Inr_reaches:
  assumes "startDeal env proposal s = Some (Inr c, s')"
  shows "\<exists>w objectSize sigdata s2.
           wallet proposal = Some w \<and>
           getIPFSObjectSize env (data_root proposal) = Inr objectSize \<and>
           hasPrivateKey (getAccount (accounts s) w) \<and>
           signProposal env (getAccount (accounts s) w) proposal = Inr sigdata \<and>
           registerAndMine env proposal s sigdata objectSize = Some (None, s2)"
proof -
  from assms obtain w where w: "wallet proposal = Some w"
    by (cases "wallet proposal") (auto simp: startDeal_def)
  from assms w obtain objectSize where
    sz: "getIPFSObjectSize env (data_root proposal) = Inr objectSize"
    by (cases "getIPFSObjectSize env (data_root proposal)") (auto simp: startDeal_def)
  from assms w sz have k: "hasPrivateKey (getAccount (accounts s) w)"
    by (auto simp: startDeal_def Let_def split: if_splits)
  from assms w sz k obtain sigdata where
    sg: "signProposal env (getAccount (accounts s) w) proposal = Inr sigdata"
    by (cases "signProposal env (getAccount (accounts s) w) proposal")
       (auto simp: startDeal_def Let_def)
  from assms have "registerAndMine env proposal s sigdata objectSize \<noteq> None"
    by (auto simp: startDeal_unfold [OF w sz k sg] split: option.splits)
  then obtain r s2 where m: "registerAndMine env proposal s sigdata objectSize = Some (r, s2)"
    by (cases "registerAndMine env proposal s sigdata objectSize") auto
  with assms have "r = None"
    by (cases r) (auto simp: startDeal_unfold [OF w sz k sg] split: option.splits)
  with w sz k sg m show ?thesis by blast
qed

text \<open>
  C8. A call of \<open>startDeal\<close> returns a CID exactly when the proposal names a wallet
  whose key the engine holds, the object's size and the signature are obtained, and the
  registration of the deal (and, when \<open>blockTime\<close> is 0, the mining until the deal is
  \<open>Active\<close>) ends without error, in a state \<open>s2\<close>. The CID is that of the signature,
  and the state returned is \<open>s2\<close> with the ledger that \<open>transferFunds\<close> of
  \<open>pricePerEpoch * duration\<close> from \<open>proposal.wallet\<close> to \<open>proposal.miner\<close> leaves. What
  \<open>transferFunds\<close> answers plays no part: when the wallet holds less than the price it
  answers \<open>false\<close>, and \<open>startDeal\<close> returns the CID all the same, with \<open>s2\<close> as it was.
\<close>

theorem startDeal_payment:
  "(startDeal env proposal s = Some (Inr c, s') \<longleftrightarrow>
      (\<exists>w objectSize sigdata s2.
          wallet proposal = Some w \<and>
          getIPFSObjectSize env (data_root proposal) = Inr objectSize \<and>
          hasPrivateKey (getAccount (accounts s) w) \<and>
          signProposal env (getAccount (accounts s) w) proposal = Inr sigdata \<and>
          registerAndMine env proposal s sigdata objectSize = Some (None, s2) \<and>
          s' = s2\<lparr>accounts :=
                   snd (transferFunds (accounts s2) w (sdp_miner proposal)
                          (epochPrice proposal * minBlocksDuration proposal))\<rparr> \<and>
          c = dagCborCid env sigdata)) \<and>
   (wallet proposal = Some w \<and>
    getIPFSObjectSize env (data_root proposal) = Inr objectSize \<and>
    hasPrivateKey (getAccount (accounts s) w) \<and>
    signProposal env (getAccount (accounts s) w) proposal = Inr sigdata \<and>
    registerAndMine env proposal s sigdata objectSize = Some (None, s2) \<and>
    balance (accounts s2 w) < epochPrice proposal * minBlocksDuration proposal \<longrightarrow>
      fst (transferFunds (accounts s2) w (sdp_miner proposal)
             (epochPrice proposal * minBlocksDuration proposal)) = False \<and>
      startDeal env proposal s = Some (Inr (dagCborCid env sigdata), s2))"
proof -
  have forward: "startDeal env proposal s = Some (Inr c, s')"
    if "\<exists>w objectSize sigdata s2.
          wallet proposal = Some w \<and>
          getIPFSObjectSize env (data_root proposal) = Inr objectSize \<and>
          hasPrivateKey (getAccount (accounts s) w) \<and>
          signProposal env (getAccount (accounts s) w) proposal = Inr sigdata \<and>
          registerAndMine env proposal s sigdata objectSize = Some (None, s2) \<and>
          s' = s2\<lparr>accounts :=
                   snd (transferFunds (accounts s2) w (sdp_miner proposal)
                          (epochPrice proposal * minBlocksDuration proposal))\<rparr> \<and>
          c = dagCborCid env sigdata"
    using that startDeal_returns by blast
  have backward: "\<exists>w objectSize sigdata s2.
          wallet proposal = Some w \<and>
          getIPFSObjectSize env (data_root proposal) = Inr objectSize \<and>
          hasPrivateKey (getAccount (accounts s) w) \<and>
          signProposal env (getAccount (accounts s) w) proposal = Inr sigdata \<and>
          registerAndMine env proposal s sigdata objectSize = Some (None, s2) \<and>
          s' = s2\<lparr>accounts :=
                   snd (transferFunds (accounts s2) w (sdp_miner proposal)
                          (epochPrice proposal * minBlocksDuration proposal))\<rparr> \<and>
          c = dagCborCid env sigdata"
    if r: "startDeal env proposal s = Some (Inr c, s')"
  proof -
    from startDeal_Inr_reaches [OF r] obtain w objectSize sigdata s2 where
      a: "wallet proposal = Some w"
         "getIPFSObjectSize env (data_root proposal) = Inr objectSize"
         "hasPrivateKey (getAccount (accounts s) w)"
         "signProposal env (getAccount (accounts s) w) proposal = Inr sigdata"
         "registerAndMine env proposal s sigdata objectSize = Some (None, s2)"
      by blast
    from startDeal_returns [OF a] r have
      "s' = s2\<lparr>accounts :=
                   snd (transferFunds (accounts s2) w (sdp_miner proposal)
                          (epochPrice proposal * minBlocksDuration proposal))\<rparr>"
      and "c = dagCborCid env sigdata"
      by simp_all
    with a show ?thesis by blast
  qed
  have unpaid: "fst (transferFunds (accounts s2) w (sdp_miner proposal)
             (epochPrice proposal * minBlocksDuration proposal)) = False \<and>
      startDeal env proposal s = Some (Inr (dagCborCid env sigdata), s2)"
    if "wallet proposal = Some w \<and>
    getIPFSObjectSize env (data_root proposal) = Inr objectSize \<and>
    hasPrivateKey (getAccount (accounts s) w) \<and>
    signProposal env (getAccount (accounts s) w) proposal = Inr sigdata \<and>
    registerAndMine env proposal s sigdata objectSize = Some (None, s2) \<and>
    balance (accounts s2 w) < epochPrice proposal * minBlocksDuration proposal"
  proof -
    from that have a: "wallet proposal = Some w"
         "getIPFSObjectSize env (data_root proposal) = Inr objectSize"
         "hasPrivateKey (getAccount (accounts s) w)"
         "signProposal env (getAccount (accounts s) w) proposal = Inr sigdata"
         "registerAndMine env proposal s sigdata objectSize = Some (None, s2)"
      and poor: "balance (accounts s2 w) < epochPrice proposal * minBlocksDuration proposal"
      by simp_all
    from poor have t: "transferFunds (accounts s2) w (sdp_miner proposal)
             (epochPrice proposal * minBlocksDuration proposal) = (False, accounts s2)"
      by (simp add: transferFunds_def)
    from startDeal_returns [OF a] t show ?thesis by simp
  qed
  from forward backward unpaid show ?thesis by blast
qed

lemma poor_mined:
  "registerAndMine instamineEnv (exampleProposal ''t1bob'' 5) exampleState ''signed-proposal'' 4
     = Some (None, poorMinedState)"
  by (simp add: poorMinedState_def registerAndMine_def instamineEnv_def mine_defs example_defs
        deal_defs mineUntilActive.simps)

lemma poor_mined_state:
  "balance (accounts poorMinedState ''t1bob'') = 7 \<and>
   map state (deals poorMinedState) = [2] \<and>
   inProcessDeals poorMinedState = [] \<and>
   height (latest poorMinedState) = 2"
  by (simp add: poorMinedState_def registerAndMine_def instamineEnv_def mine_defs example_defs
        deal_defs mineUntilActive.simps)

lemma poor_proposal:
  "wallet (exampleProposal ''t1bob'' 5) = Some ''t1bob'' \<and>
   getIPFSObjectSize instamineEnv (data_root (exampleProposal ''t1bob'' 5)) = Inr 4 \<and>
   hasPrivateKey (getAccount (accounts exampleState) ''t1bob'') \<and>
   signProposal instamineEnv (getAccount (accounts exampleState) ''t1bob'')
     (exampleProposal ''t1bob'' 5) = Inr ''signed-proposal'' \<and>
   epochPrice (exampleProposal ''t1bob'' 5) * minBlocksDuration (exampleProposal ''t1bob'' 5) = 15 \<and>
   dagCborCid instamineEnv ''signed-proposal'' = ''deal-signed-proposal''"
  by (simp add: instamineEnv_def example_defs deal_defs getAccount_def)

text \<open>Instamining, a wallet holding 7 and a price of 15: the deal is mined to
  \<open>Active\<close>, nothing is paid, the CID is returned.\<close>

theorem startDeal_payment_witness:
  "registerAndMine instamineEnv (exampleProposal ''t1bob'' 5) exampleState ''signed-proposal'' 4
     = Some (None, poorMinedState) \<and>
   epochPrice (exampleProposal ''t1bob'' 5) * minBlocksDuration (exampleProposal ''t1bob'' 5) = 15 \<and>
   balance (accounts poorMinedState ''t1bob'') = 7 \<and>
   map state (deals poorMinedState) = [2] \<and>
   startDeal instamineEnv (exampleProposal ''t1bob'' 5) exampleState
     = Some (Inr ''deal-signed-proposal'', poorMinedState)"
proof -
  note t = startDeal_payment
    [where env = instamineEnv and proposal = "exampleProposal ''t1bob'' 5" and s = exampleState
       and w = "''t1bob''" and objectSize = 4 and sigdata = "''signed-proposal''"
       and ?s2.0 = poorMinedState, THEN conjunct2]
  have "startDeal instamineEnv (exampleProposal ''t1bob'' 5) exampleState
     = Some (Inr ''deal-signed-proposal'', poorMinedState)"
    using t poor_mined poor_mined_state poor_proposal by simp
  with poor_mined poor_mined_state poor_proposal show ?thesis by simp
qed

end
